theory Spec2Isabelle
  imports Main
begin

section \<open>Python strings and integers as used by free\_disk\_space.py\<close>

text \<open>
  A Python \<open>str\<close> is modelled as a \<open>string\<close>, each \<open>char\<close> read as the code point
  of the same number (0 to 255).  The predicates below are those of CPython on that range.
\<close>

definition is_space :: "char \<Rightarrow> bool" where
  \<comment> \<open>\<open>str.isspace()\<close> on one character: the set used by \<open>strip()\<close> and \<open>split()\<close>.\<close>
  "is_space c =
     (let n = (of_char c :: nat)
      in (9 \<le> n \<and> n \<le> 13) \<or> (28 \<le> n \<and> n \<le> 32) \<or> n = 133 \<or> n = 160)"

definition py_strip :: "string \<Rightarrow> string" where
  \<comment> \<open>\<open>s.strip()\<close>\<close>
  "py_strip s = rev (dropWhile is_space (rev (dropWhile is_space s)))"

fun split_on :: "char \<Rightarrow> string \<Rightarrow> string \<Rightarrow> string list" where
  "split_on sep cur [] = [cur]"
| "split_on sep cur (c # cs) =
     (if c = sep then cur # split_on sep [] cs else split_on sep (cur @ [c]) cs)"

definition py_split_sep :: "char \<Rightarrow> string \<Rightarrow> string list" where
  \<comment> \<open>\<open>s.split(sep)\<close> for a one-character separator: empty pieces are kept.\<close>
  "py_split_sep sep s = split_on sep [] s"

fun split_ws :: "string \<Rightarrow> string \<Rightarrow> string list" where
  "split_ws cur [] = (if cur = [] then [] else [cur])"
| "split_ws cur (c # cs) =
     (if is_space c then (if cur = [] then [] else [cur]) @ split_ws [] cs
      else split_ws (cur @ [c]) cs)"

definition py_split :: "string \<Rightarrow> string list" where
  \<comment> \<open>\<open>s.split()\<close>: pieces between runs of whitespace, none of them empty.\<close>
  "py_split s = split_ws [] s"

definition is_digit :: "char \<Rightarrow> bool" where
  "is_digit c = (let n = (of_char c :: nat) in 48 \<le> n \<and> n \<le> 57)"

definition digit_val :: "char \<Rightarrow> nat" where
  "digit_val c = of_char c - 48"

fun scan_digits :: "char \<Rightarrow> string \<Rightarrow> bool" where
  \<comment> \<open>digits with single underscores between them; the first argument is the previous character\<close>
  "scan_digits prev [] = (prev \<noteq> CHR ''_'')"
| "scan_digits prev (c # cs) =
     (if c = CHR ''_'' then prev \<noteq> CHR ''_'' \<and> scan_digits c cs
      else is_digit c \<and> scan_digits c cs)"

definition dec_value :: "string \<Rightarrow> nat" where
  "dec_value ds = foldl (\<lambda>acc c. 10 * acc + digit_val c) 0 ds"

definition over_limit :: "nat \<Rightarrow> nat \<Rightarrow> bool" where
  \<comment> \<open>the interpreter's cap on decimal digits (\<open>sys.get_int_max_str_digits()\<close>, 0 = no cap,
      otherwise at least 640): conversions of more digits raise ValueError\<close>
  "over_limit lim n = (640 < n \<and> 0 < lim \<and> lim < n)"

definition py_int :: "nat \<Rightarrow> string \<Rightarrow> int option" where
  \<comment> \<open>\<open>int(tok)\<close> for a token without whitespace, as \<open>split()\<close> yields them;
      \<open>None\<close> is ValueError.\<close>
  "py_int lim tok =
     (let (neg, body) =
            (case tok of
               [] \<Rightarrow> (False, [])
             | c # cs \<Rightarrow>
                 if c = CHR ''-'' then (True, cs)
                 else if c = CHR ''+'' then (False, cs)
                 else (False, tok))
      in case body of
           [] \<Rightarrow> None
         | b # _ \<Rightarrow>
             if b = CHR ''_'' \<or> \<not> scan_digits (CHR 0x00) body then None
             else
               (let ds = filter (\<lambda>c. c \<noteq> CHR ''_'') body
                in if over_limit lim (length ds) then None
                   else Some (if neg then - int (dec_value ds) else int (dec_value ds))))"

fun add_available :: "nat \<Rightarrow> int \<Rightarrow> string list \<Rightarrow> int" where
  \<comment> \<open>the loop of \<open>get_available_space\<close> over the report's lines, \<open>total_avail\<close> as accumulator\<close>
  "add_available lim total_avail [] = total_avail"
| "add_available lim total_avail (line # lines) =
     (let parts = py_split line
      in add_available lim
           (if 4 \<le> length parts then
              (case py_int lim (parts ! 3) of
                 Some n \<Rightarrow> total_avail + n
               | None \<Rightarrow> total_avail)
            else total_avail)
           lines)"

definition data_rows :: "string \<Rightarrow> string list" where
  \<comment> \<open>\<open>result.stdout.strip().split('\n')[1:]\<close>\<close>
  "data_rows out = tl (py_split_sep (CHR 0x0A) (py_strip out))"

definition parse_available :: "nat \<Rightarrow> string \<Rightarrow> int" where
  "parse_available lim out = add_available lim 0 (data_rows out)"

section \<open>Processes, telemetry calls and the console\<close>

datatype py_error = OSError | ValueError | CalledProcessError int

datatype proc =
    Exited int string  \<comment> \<open>the child ran and ended: return code, standard output\<close>
  | NotStarted         \<comment> \<open>\<open>subprocess.run\<close> raised OSError: the program could not be started\<close>

datatype tval = TStr string | TInt int | TBool bool | TNone

datatype event =
    Print string                  \<comment> \<open>\<open>print(line)\<close>\<close>
  | ChildOut string               \<comment> \<open>output that a child wrote to the inherited console\<close>
  | SdkInit string string string  \<comment> \<open>\<open>sentry_sdk.init(dsn, environment, release)\<close>\<close>
  | SetTag string string          \<comment> \<open>\<open>sentry_sdk.set_tag(key, value)\<close>\<close>
  | Transaction string string     \<comment> \<open>\<open>start_transaction(op, name)\<close>\<close>
  | TxSetTag string string        \<comment> \<open>\<open>transaction.set_tag(key, value)\<close>\<close>
  | Span string string            \<comment> \<open>\<open>start_span(description, op)\<close>, written op first\<close>
  | SetData string string tval    \<comment> \<open>\<open>span.set_data(key, value)\<close>, with the op of the span\<close>
  | PushScope                     \<comment> \<open>\<open>sentry_sdk.push_scope()\<close>\<close>
  | SetExtra string tval          \<comment> \<open>\<open>scope.set_extra(key, value)\<close>\<close>
  | Capture py_error              \<comment> \<open>\<open>capture_exception(e)\<close>\<close>

text \<open>
  The machine the script runs on: \<open>exec\<close> starts a program on a state of the machine and
  gives what \<open>subprocess.run\<close> observes together with the state the program leaves behind;
  \<open>max_str_digits\<close> is the interpreter's digit cap.  The process environment is a map
  from variable names to values.
\<close>

record 'w host =
  exec :: "'w \<Rightarrow> string list \<Rightarrow> proc \<times> 'w"
  max_str_digits :: nat

type_synonym env = "string \<Rightarrow> string option"

text \<open>
  A piece of the script maps the machine state to its outcome (an exception raised, or
  the value returned), the new machine state, and the calls it made to \<open>print\<close> and to the
  telemetry SDK, in order.  SDK calls are taken to return normally.
\<close>

type_synonym ('w, 'a) prog = "'w \<Rightarrow> (py_error + 'a) \<times> 'w \<times> event list"

definition ret :: "'a \<Rightarrow> ('w, 'a) prog" where
  "ret x w = (Inr x, w, [])"

definition throw :: "py_error \<Rightarrow> ('w, 'a) prog" where
  "throw e w = (Inl e, w, [])"

definition emit :: "event \<Rightarrow> ('w, unit) prog" where
  "emit e w = (Inr (), w, [e])"

definition emits :: "event list \<Rightarrow> ('w, unit) prog" where
  "emits es w = (Inr (), w, es)"

definition bnd :: "('w, 'a) prog \<Rightarrow> ('a \<Rightarrow> ('w, 'b) prog) \<Rightarrow> ('w, 'b) prog" where
  "bnd m f w =
     (case m w of
        (Inl e, w1, l1) \<Rightarrow> (Inl e, w1, l1)
      | (Inr x, w1, l1) \<Rightarrow> (case f x w1 of (r, w2, l2) \<Rightarrow> (r, w2, l1 @ l2)))"

definition thn :: "('w, 'a) prog \<Rightarrow> ('w, 'b) prog \<Rightarrow> ('w, 'b) prog" where
  "thn m k = bnd m (\<lambda>_. k)"

definition when_true :: "bool \<Rightarrow> ('w, unit) prog \<Rightarrow> ('w, unit) prog" where
  "when_true b m = (if b then m else ret ())"

primrec for_each :: "('a \<Rightarrow> ('w, unit) prog) \<Rightarrow> 'a list \<Rightarrow> ('w, unit) prog" where
  "for_each f [] = ret ()"
| "for_each f (x # xs) = thn (f x) (for_each f xs)"

definition run_captured :: "'w host \<Rightarrow> string list \<Rightarrow> ('w, int \<times> string) prog" where
  \<comment> \<open>\<open>subprocess.run(cmd, capture_output=True, text=True)\<close>\<close>
  "run_captured h cmd w =
     (case exec h w cmd of
        (NotStarted, w1) \<Rightarrow> (Inl OSError, w1, [])
      | (Exited rc out, w1) \<Rightarrow> (Inr (rc, out), w1, []))"

definition run_inherit :: "'w host \<Rightarrow> string list \<Rightarrow> ('w, int) prog" where
  \<comment> \<open>\<open>subprocess.run(cmd, check=False)\<close>: the child writes to the console itself\<close>
  "run_inherit h cmd w =
     (case exec h w cmd of
        (NotStarted, w1) \<Rightarrow> (Inl OSError, w1, [])
      | (Exited rc out, w1) \<Rightarrow> (Inr rc, w1, [ChildOut out]))"

section \<open>More of the string library\<close>

definition digit_char :: "nat \<Rightarrow> char" where
  "digit_char n = char_of (48 + n)"

fun nat_digits :: "nat \<Rightarrow> string" where
  "nat_digits n =
     (if n < 10 then [digit_char n] else nat_digits (n div 10) @ [digit_char (n mod 10)])"

declare nat_digits.simps [simp del]

definition py_str :: "nat \<Rightarrow> int \<Rightarrow> string option" where
  \<comment> \<open>\<open>str(k)\<close>, as an f-string renders an int; \<open>None\<close> is ValueError (digit cap)\<close>
  "py_str lim k =
     (let ds = nat_digits (nat \<bar>k\<bar>)
      in if over_limit lim (length ds) then None
         else Some (if k < 0 then CHR ''-'' # ds else ds))"

fun py_join :: "string \<Rightarrow> string list \<Rightarrow> string" where
  "py_join sep [] = []"
| "py_join sep [x] = x"
| "py_join sep (x # y # ys) = x @ sep @ py_join sep (y # ys)"

definition py_replace :: "char \<Rightarrow> char \<Rightarrow> string \<Rightarrow> string" where
  \<comment> \<open>\<open>s.replace(a, b)\<close> for one-character \<open>a\<close> and \<open>b\<close>\<close>
  "py_replace a b s = map (\<lambda>c. if c = a then b else c) s"

definition upper_char :: "char \<Rightarrow> char" where
  "upper_char c =
     (let n = (of_char c :: nat) in if 97 \<le> n \<and> n \<le> 122 then char_of (n - 32) else c)"

definition py_upper :: "string \<Rightarrow> string" where
  \<comment> \<open>\<open>s.upper()\<close> on ASCII text (the flag names passed in the script are ASCII literals)\<close>
  "py_upper s = map upper_char s"

definition lower_char :: "char \<Rightarrow> char" where
  "lower_char c =
     (let n = (of_char c :: nat)
      in if (65 \<le> n \<and> n \<le> 90) \<or> (192 \<le> n \<and> n \<le> 222 \<and> n \<noteq> 215)
         then char_of (n + 32) else c)"

definition py_lower :: "string \<Rightarrow> string" where
  \<comment> \<open>\<open>s.lower()\<close>\<close>
  "py_lower s = map lower_char s"

definition getenv :: "env \<Rightarrow> string \<Rightarrow> string \<Rightarrow> string" where
  \<comment> \<open>\<open>os.environ.get(name, default)\<close>\<close>
  "getenv e name dflt = (case e name of None \<Rightarrow> dflt | Some v \<Rightarrow> v)"

definition opt_text :: "string option \<Rightarrow> string" where
  \<comment> \<open>an optional string argument; \<open>None\<close> and the empty string are both falsy\<close>
  "opt_text a = (case a of None \<Rightarrow> [] | Some t \<Rightarrow> t)"

section \<open>The functions of free\_disk\_space.py\<close>

definition print_separation_line :: "string \<Rightarrow> nat \<Rightarrow> ('w, unit) prog" where
  "print_separation_line ch num = emit (Print (concat (replicate num ch)))"

definition df_command :: "string option \<Rightarrow> string list" where
  "df_command path = [''df'', ''-a''] @ (if opt_text path \<noteq> [] then [opt_text path] else [])"

definition get_available_space :: "'w host \<Rightarrow> string option \<Rightarrow> ('w, int) prog" where
  "get_available_space h path =
     thn (emit (Span ''disk.space''
            (''Get available space: '' @ (if opt_text path \<noteq> [] then opt_text path else ''all''))))
    (thn (when_true (opt_text path \<noteq> [])
            (emit (SetData ''disk.space'' ''path'' (TStr (opt_text path)))))
    (bnd (run_captured h (df_command path))
      (\<lambda>(rc, out).
         let total_avail = parse_available (max_str_digits h) out
         in thn (emit (SetData ''disk.space'' ''available_kb'' (TInt total_avail)))
                (ret total_avail))))"

definition numfmt_command :: "string \<Rightarrow> string list" where
  "numfmt_command kb_text =
     [''numfmt'', ''--to=iec-i'', ''--suffix=B'', ''--padding=7'', kb_text @ ''000'']"

definition format_byte_count :: "'w host \<Rightarrow> int \<Rightarrow> ('w, string) prog" where
  "format_byte_count h kb =
     thn (emit (Span ''utility.format'' ''Format byte count''))
    (thn (emit (SetData ''utility.format'' ''kb_input'' (TInt kb)))
    (case py_str (max_str_digits h) kb of
       None \<Rightarrow> throw ValueError
     | Some kb_text \<Rightarrow>
         bnd (run_captured h (numfmt_command kb_text))
           (\<lambda>(rc, out).
              let formatted = py_strip out
              in thn (emit (SetData ''utility.format'' ''formatted_output'' (TStr formatted)))
                     (ret formatted))))"

definition print_saved_space :: "'w host \<Rightarrow> int \<Rightarrow> string option \<Rightarrow> ('w, unit) prog" where
  "print_saved_space h saved title =
     thn (emit (Span ''utility.report'' ''Print saved space''))
    (thn (when_true (opt_text title \<noteq> [])
            (emit (SetData ''utility.report'' ''title'' (TStr (opt_text title)))))
    (thn (emit (SetData ''utility.report'' ''saved_kb'' (TInt saved)))
    (thn (emit (Print []))
    (thn (print_separation_line ''*'' 80)
    (thn (bnd (format_byte_count h saved)
            (\<lambda>formatted.
               if opt_text title \<noteq> []
               then emit (Print (''=> '' @ opt_text title @ '': Saved '' @ formatted))
               else emit (Print (''=> Saved '' @ formatted))))
    (thn (print_separation_line ''*'' 80)
         (emit (Print []))))))))"

definition print_dh :: "'w host \<Rightarrow> string option \<Rightarrow> ('w, unit) prog" where
  "print_dh h caption =
     thn (emit (Span ''disk.report'' ''Print disk usage''))
    (thn (when_true (opt_text caption \<noteq> [])
            (emit (SetData ''disk.report'' ''caption'' (TStr (opt_text caption)))))
    (thn (print_separation_line ''='' 80)
    (thn (when_true (opt_text caption \<noteq> [])
            (emits [Print (opt_text caption), Print []]))
    (thn (emits [Print ''$ df -h /'', Print []])
    (thn (run_inherit h [''df'', ''-h'', ''/''])
    (thn (emits [Print ''$ df -a /'', Print []])
    (thn (run_inherit h [''df'', ''-a'', ''/''])
    (thn (emits [Print ''$ df -a'', Print []])
    (thn (run_inherit h [''df'', ''-a''])
         (print_separation_line ''='' 80))))))))))"

definition run_command :: "'w host \<Rightarrow> string \<Rightarrow> string list \<Rightarrow> string option \<Rightarrow> ('w, bool) prog" where
  \<comment> \<open>the second argument is the module's global \<open>SENTRY_DSN\<close>\<close>
  "run_command h dsn cmd error_msg =
     thn (emit (Span ''command'' (''Command: '' @ py_join '' '' cmd)))
    (thn (emit (SetData ''command'' ''command'' (TStr (py_join '' '' cmd))))
    (bnd (run_inherit h cmd)
      (\<lambda>returncode.
         if returncode = 0
         then thn (emit (SetData ''command'' ''status'' (TStr ''success''))) (ret True)
         else
           thn (when_true (opt_text error_msg \<noteq> [])
                  (emit (Print (''::warning::'' @ opt_text error_msg))))
          (thn (when_true (dsn \<noteq> [])
                  (emits [PushScope,
                          SetExtra ''command'' (TStr (py_join '' '' cmd)),
                          SetExtra ''returncode'' (TInt returncode),
                          SetExtra ''stderr'' TNone,
                          Capture (CalledProcessError returncode)]))
               (ret False)))))"

definition get_input :: "env \<Rightarrow> string \<Rightarrow> string \<Rightarrow> bool" where
  "get_input e name dflt =
     (let var_name = ''INPUT_'' @ py_upper (py_replace (CHR ''-'') (CHR ''_'') name)
      in py_lower (getenv e var_name dflt) = ''true'')"


definition stage_block ::
  "'w host \<Rightarrow> string \<Rightarrow> string \<Rightarrow> string \<Rightarrow> ('w, unit) prog \<Rightarrow> ('w, unit) prog" where
  \<comment> \<open>the shape shared by the seven stage blocks of \<open>main\<close>: the span (op, description),
      \<open>before\<close>, the stage's own operations, \<open>after\<close>, \<open>saved\<close> and its report under \<open>title\<close>\<close>
  "stage_block h op description title operations =
     thn (emit (Span op description))
    (bnd (get_available_space h None)
      (\<lambda>before.
         thn operations
        (bnd (get_available_space h None)
          (\<lambda>after.
             let saved = after - before
             in thn (emit (SetData op ''saved_kb'' (TInt saved)))
               (bnd (format_byte_count h saved)
                 (\<lambda>formatted.
                    thn (emit (SetData op ''saved_formatted'' (TStr formatted)))
                        (print_saved_space h saved (Some title))))))))"

definition apt_commands :: "string list list" where
  "apt_commands =
     [[''sudo'', ''apt-get'', ''remove'', ''-y'', ''^aspnetcore-.*''],
      [''sudo'', ''apt-get'', ''remove'', ''-y'', ''^dotnet-.*'', ''--fix-missing''],
      [''sudo'', ''apt-get'', ''remove'', ''-y'', ''^llvm-.*'', ''--fix-missing''],
      [''sudo'', ''apt-get'', ''remove'', ''-y'', ''php.*'', ''--fix-missing''],
      [''sudo'', ''apt-get'', ''remove'', ''-y'', ''^mongodb-.*'', ''--fix-missing''],
      [''sudo'', ''apt-get'', ''remove'', ''-y'', ''^mysql-.*'', ''--fix-missing''],
      [''sudo'', ''apt-get'', ''remove'', ''-y'', ''azure-cli'', ''google-chrome-stable'',
       ''firefox'', ''powershell'', ''mono-devel'', ''libgl1-mesa-dri'', ''--fix-missing''],
      [''sudo'', ''apt-get'', ''remove'', ''-y'', ''google-cloud-sdk'', ''--fix-missing''],
      [''sudo'', ''apt-get'', ''remove'', ''-y'', ''google-cloud-cli'', ''--fix-missing''],
      [''sudo'', ''apt-get'', ''autoremove'', ''-y''],
      [''sudo'', ''apt-get'', ''clean'']]"

definition package_step :: "'w host \<Rightarrow> string \<Rightarrow> nat \<Rightarrow> nat \<times> string list \<Rightarrow> ('w, unit) prog" where
  \<comment> \<open>one turn of \<open>for i, cmd in enumerate(apt_commands)\<close>; \<open>n\<close> is \<open>len(apt_commands)\<close>\<close>
  "package_step h dsn n = (\<lambda>(i, cmd).
     thn (emit (Span ''cleanup.packages.cmd''
            (''Package removal '' @ nat_digits (i + 1) @ ''/'' @ nat_digits n)))
    (thn (emit (SetData ''cleanup.packages.cmd'' ''command'' (TStr (py_join '' '' cmd))))
    (bnd (run_command h dsn cmd
            (Some (''The command ['' @ py_join '' '' cmd
                   @ ''] failed to complete successfully. Proceeding...'')))
      (\<lambda>success. emit (SetData ''cleanup.packages.cmd'' ''success'' (TBool success))))))"

definition run_batch :: "'w host \<Rightarrow> string \<Rightarrow> string list list \<Rightarrow> ('w, unit) prog" where
  \<comment> \<open>the \<open>for\<close> loop of the large-packages stage, over any list of commands\<close>
  "run_batch h dsn cmds = for_each (package_step h dsn (length cmds)) (enumerate 0 cmds)"

definition tool_cache_operations :: "'w host \<Rightarrow> env \<Rightarrow> string \<Rightarrow> ('w, unit) prog" where
  "tool_cache_operations h e dsn =
     (let agent_tools_dir = getenv e ''AGENT_TOOLSDIRECTORY'' []
      in when_true (agent_tools_dir \<noteq> [])
           (thn (emit (SetData ''cleanup.toolcache'' ''agent_tools_dir'' (TStr agent_tools_dir)))
           (thn (run_command h dsn [''sudo'', ''rm'', ''-rf'', agent_tools_dir] None)
                (ret ()))))"

definition initial_measurement :: "'w host \<Rightarrow> ('w, int \<times> int) prog" where
  \<comment> \<open>the first block of \<open>main\<close>; gives \<open>(available_initial, available_root_initial)\<close>\<close>
  "initial_measurement h =
     thn (emit (Span ''cleanup.init'' ''Initial space measurement''))
    (bnd (get_available_space h None)
      (\<lambda>available_initial.
         bnd (get_available_space h (Some ''/''))
           (\<lambda>available_root_initial.
              thn (emit (SetData ''cleanup.init'' ''initial_kb'' (TInt available_initial)))
             (thn (emit (SetData ''cleanup.init'' ''initial_root_kb'' (TInt available_root_initial)))
             (thn (print_dh h (Some ''BEFORE CLEAN-UP:''))
             (thn (emit (Print []))
                  (ret (available_initial, available_root_initial))))))))"

definition final_statistics :: "'w host \<Rightarrow> int \<Rightarrow> int \<Rightarrow> ('w, unit) prog" where
  \<comment> \<open>the last block of \<open>main\<close> and the lines after it that close the transaction\<close>
  "final_statistics h available_initial available_root_initial =
     thn (emit (Span ''cleanup.stats'' ''Calculate final statistics''))
    (bnd (get_available_space h None)
      (\<lambda>available_end.
         bnd (get_available_space h (Some ''/''))
           (\<lambda>available_root_end.
              let root_saved = available_root_end - available_root_initial;
                  total_saved = available_end - available_initial
              in thn (emit (SetData ''cleanup.stats'' ''initial_kb'' (TInt available_initial)))
                (thn (emit (SetData ''cleanup.stats'' ''final_kb'' (TInt available_end)))
                (thn (emit (SetData ''cleanup.stats'' ''total_saved_kb'' (TInt total_saved)))
                (bnd (format_byte_count h total_saved)
                  (\<lambda>formatted.
                     thn (emit (SetData ''cleanup.stats'' ''total_saved_formatted'' (TStr formatted)))
                    (thn (emit (Print []))
                    (thn (print_dh h (Some ''AFTER CLEAN-UP:''))
                    (thn (emits [Print [], Print []])
                    (thn (emit (Print ''/dev/root:''))
                    (thn (print_saved_space h root_saved None)
                    (thn (emit (Print ''overall:''))
                    (thn (print_saved_space h total_saved None)
                    (thn (emit (TxSetTag ''cleanup.success'' ''true''))
                    (thn (emit (SetData ''cleanup'' ''total_kb_freed'' (TInt total_saved)))
                    (bnd (format_byte_count h total_saved)
                      (\<lambda>formatted2.
                         emit (SetData ''cleanup'' ''total_freed_formatted''
                                 (TStr formatted2))))))))))))))))))))"

definition android_stage :: "'w host \<Rightarrow> string \<Rightarrow> ('w, unit) prog" where
  "android_stage h dsn =
     stage_block h ''cleanup.android'' ''Remove Android library'' ''Android library''
       (thn (run_command h dsn [''sudo'', ''rm'', ''-rf'', ''/usr/local/lib/android''] None)
            (ret ()))"

definition dotnet_stage :: "'w host \<Rightarrow> string \<Rightarrow> ('w, unit) prog" where
  "dotnet_stage h dsn =
     stage_block h ''cleanup.dotnet'' ''Remove .NET runtime'' ''.NET runtime''
       (thn (run_command h dsn [''sudo'', ''rm'', ''-rf'', ''/usr/share/dotnet''] None)
            (ret ()))"

definition haskell_stage :: "'w host \<Rightarrow> string \<Rightarrow> ('w, unit) prog" where
  "haskell_stage h dsn =
     stage_block h ''cleanup.haskell'' ''Remove Haskell runtime'' ''Haskell runtime''
       (thn (run_command h dsn [''sudo'', ''rm'', ''-rf'', ''/opt/ghc''] None)
       (thn (run_command h dsn [''sudo'', ''rm'', ''-rf'', ''/usr/local/.ghcup''] None)
            (ret ())))"

definition packages_stage :: "'w host \<Rightarrow> string \<Rightarrow> ('w, unit) prog" where
  "packages_stage h dsn =
     stage_block h ''cleanup.packages'' ''Remove large packages'' ''Large misc. packages''
       (run_batch h dsn apt_commands)"

definition docker_stage :: "'w host \<Rightarrow> string \<Rightarrow> ('w, unit) prog" where
  "docker_stage h dsn =
     stage_block h ''cleanup.docker'' ''Remove Docker images'' ''Docker images''
       (thn (run_command h dsn [''sudo'', ''docker'', ''image'', ''prune'', ''--all'', ''--force''] None)
            (ret ()))"

definition toolcache_stage :: "'w host \<Rightarrow> env \<Rightarrow> string \<Rightarrow> ('w, unit) prog" where
  "toolcache_stage h e dsn =
     stage_block h ''cleanup.toolcache'' ''Remove tool cache'' ''Tool cache''
       (tool_cache_operations h e dsn)"

definition swap_stage :: "'w host \<Rightarrow> string \<Rightarrow> ('w, unit) prog" where
  "swap_stage h dsn =
     stage_block h ''cleanup.swap'' ''Remove swap storage'' ''Swap storage''
       (thn (run_command h dsn [''sudo'', ''swapoff'', ''-a''] None)
       (thn (run_command h dsn [''sudo'', ''rm'', ''-f'', ''/mnt/swapfile''] None)
       (thn (run_command h dsn [''free'', ''-h''] None)
            (ret ()))))"

definition main :: "'w host \<Rightarrow> env \<Rightarrow> string \<Rightarrow> ('w, unit) prog" where
  "main h e dsn =
     thn (emit (Transaction ''cleanup'' ''Disk Space Cleanup''))
    (bnd (initial_measurement h)
      (\<lambda>(available_initial, available_root_initial).
         thn (when_true (get_input e ''android'' ''true'') (android_stage h dsn))
        (thn (when_true (get_input e ''dotnet'' ''true'') (dotnet_stage h dsn))
        (thn (when_true (get_input e ''haskell'' ''true'') (haskell_stage h dsn))
        (thn (when_true (get_input e ''large-packages'' ''true'') (packages_stage h dsn))
        (thn (when_true (get_input e ''docker-images'' ''true'') (docker_stage h dsn))
        (thn (when_true (get_input e ''tool-cache'' ''false'') (toolcache_stage h e dsn))
        (thn (when_true (get_input e ''swap-storage'' ''true'') (swap_stage h dsn))
             (final_statistics h available_initial available_root_initial)))))))))"

definition sentry_setup :: "env \<Rightarrow> string \<Rightarrow> ('w, unit) prog" where
  \<comment> \<open>the module-level block guarded by \<open>if SENTRY_DSN\<close>\<close>
  "sentry_setup e dsn =
     when_true (dsn \<noteq> [])
       (emits [SdkInit dsn (getenv e ''GITHUB_ENVIRONMENT'' ''production'')
                 (getenv e ''GITHUB_SHA'' ''unknown''),
               SetTag ''github.repository'' (getenv e ''GITHUB_REPOSITORY'' ''unknown''),
               SetTag ''github.workflow'' (getenv e ''GITHUB_WORKFLOW'' ''unknown''),
               SetTag ''github.run_id'' (getenv e ''GITHUB_RUN_ID'' ''unknown'')])"

definition script :: "'w host \<Rightarrow> env \<Rightarrow> ('w, unit) prog" where
  \<comment> \<open>the file run as a program: module level, then the \<open>__main__\<close> block, which forwards
      an exception to the SDK when a DSN is set and raises it again\<close>
  "script h e =
     (let dsn = getenv e ''SENTRY_DSN'' []
      in thn (sentry_setup e dsn)
           (\<lambda>w. case thn (emit (Span ''script.main'' ''Main execution'')) (main h e dsn) w of
                   (Inl err, w1, l1) \<Rightarrow>
                     (Inl err, w1, l1 @ (if dsn \<noteq> [] then [Capture err] else []))
                 | (Inr u, w1, l1) \<Rightarrow> (Inr u, w1, l1)))"


section \<open>Reading a run\<close>

definition result_of :: "(py_error + 'a) \<times> 'w \<times> event list \<Rightarrow> py_error + 'a" where
  "result_of r = fst r"

definition world_of :: "(py_error + 'a) \<times> 'w \<times> event list \<Rightarrow> 'w" where
  "world_of r = fst (snd r)"

definition log_of :: "(py_error + 'a) \<times> 'w \<times> event list \<Rightarrow> event list" where
  "log_of r = snd (snd r)"

fun printed_of :: "event \<Rightarrow> string list" where
  "printed_of (Print s) = [s]"
| "printed_of _ = []"

definition printed :: "event list \<Rightarrow> string list" where
  \<comment> \<open>the lines the script itself printed\<close>
  "printed l = concat (map printed_of l)"

fun success_of :: "event \<Rightarrow> bool list" where
  "success_of (SetData op k (TBool b)) =
     (if op = ''cleanup.packages.cmd'' \<and> k = ''success'' then [b] else [])"
| "success_of _ = []"

definition batch_results :: "event list \<Rightarrow> bool list" where
  \<comment> \<open>the values of \<open>success\<close> recorded by the loop over the package commands\<close>
  "batch_results l = concat (map success_of l)"

datatype item =
    Probe string            \<comment> \<open>a measurement was started (description of its span)\<close>
  | Measured int            \<comment> \<open>\<open>available_kb\<close> of a measurement\<close>
  | StageSaved string int   \<comment> \<open>\<open>saved_kb\<close> set on a stage's span (its op)\<close>
  | Title string            \<comment> \<open>title handed to \<open>print_saved_space\<close>\<close>
  | Reported int            \<comment> \<open>amount handed to \<open>print_saved_space\<close>\<close>
  | Total int               \<comment> \<open>\<open>total_saved_kb\<close> of the final statistics\<close>
  | Banner string           \<comment> \<open>a printed line that starts with \<open>=> \<close>\<close>

fun item_of :: "event \<Rightarrow> item list" where
  "item_of (Span op d) = (if op = ''disk.space'' then [Probe d] else [])"
| "item_of (SetData op k (TInt n)) =
     (if k = ''available_kb'' then [Measured n]
      else if k = ''saved_kb'' then
        (if op = ''utility.report'' then [Reported n] else [StageSaved op n])
      else if k = ''total_saved_kb'' then [Total n]
      else [])"
| "item_of (SetData op k (TStr t)) = (if k = ''title'' then [Title t] else [])"
| "item_of (Print s) = (if take 3 s = ''=> '' then [Banner s] else [])"
| "item_of _ = []"

definition summary :: "event list \<Rightarrow> item list" where
  "summary l = concat (map item_of l)"

definition probe_all :: item where
  "probe_all = Probe ''Get available space: all''"

definition probe_root :: item where
  "probe_root = Probe ''Get available space: /''"

definition stage_items :: "string \<Rightarrow> string \<Rightarrow> int \<Rightarrow> int \<Rightarrow> string \<Rightarrow> item list" where
  \<comment> \<open>what one stage leaves in the summary: measured \<open>b\<close> before and \<open>a\<close> after,
      \<open>f\<close> the formatted amount\<close>
  "stage_items op title b a f =
     [probe_all, Measured b, probe_all, Measured a, StageSaved op (a - b),
      Title title, Reported (a - b), Banner (''=> '' @ title @ '': Saved '' @ f)]"



datatype stage = Android | Dotnet | Haskell | LargePackages | DockerImages | ToolCache | SwapStorage

definition stage_order :: "stage list" where
  "stage_order = [Android, Dotnet, Haskell, LargePackages, DockerImages, ToolCache, SwapStorage]"

fun stage_flag :: "stage \<Rightarrow> string" where
  "stage_flag Android = ''android''"
| "stage_flag Dotnet = ''dotnet''"
| "stage_flag Haskell = ''haskell''"
| "stage_flag LargePackages = ''large-packages''"
| "stage_flag DockerImages = ''docker-images''"
| "stage_flag ToolCache = ''tool-cache''"
| "stage_flag SwapStorage = ''swap-storage''"

fun stage_default :: "stage \<Rightarrow> string" where
  "stage_default ToolCache = ''false''"
| "stage_default _ = ''true''"

fun stage_title :: "stage \<Rightarrow> string" where
  "stage_title Android = ''Android library''"
| "stage_title Dotnet = ''.NET runtime''"
| "stage_title Haskell = ''Haskell runtime''"
| "stage_title LargePackages = ''Large misc. packages''"
| "stage_title DockerImages = ''Docker images''"
| "stage_title ToolCache = ''Tool cache''"
| "stage_title SwapStorage = ''Swap storage''"

definition stage_enabled :: "env \<Rightarrow> stage \<Rightarrow> bool" where
  \<comment> \<open>the test that guards the stage's block in \<open>main\<close>\<close>
  "stage_enabled e s = get_input e (stage_flag s) (stage_default s)"

fun visible :: "event \<Rightarrow> bool" where
  \<comment> \<open>every event but the SDK calls the script makes only under \<open>if SENTRY_DSN\<close>\<close>
  "visible (SdkInit d en r) = False"
| "visible (SetTag k v) = False"
| "visible PushScope = False"
| "visible (SetExtra k v) = False"
| "visible (Capture x) = False"
| "visible _ = True"

definition same_observable ::
  "(py_error + 'a) \<times> 'w \<times> event list \<Rightarrow> (py_error + 'a) \<times> 'w \<times> event list \<Rightarrow> bool" where
  "same_observable r1 r2 =
     (result_of r1 = result_of r2 \<and> world_of r1 = world_of r2
      \<and> filter visible (log_of r1) = filter visible (log_of r2))"

definition row_available :: "nat \<Rightarrow> string \<Rightarrow> int" where
  \<comment> \<open>what one data row adds, in the words of the specification: the integer in its
      fourth field, or nothing when there is no fourth field or it is no integer\<close>
  "row_available lim row =
     (case drop 3 (py_split row) of
        [] \<Rightarrow> 0
      | field # _ \<Rightarrow> (case py_int lim field of None \<Rightarrow> 0 | Some n \<Rightarrow> n))"

section \<open>A small machine to run the script on\<close>

definition show_int :: "int \<Rightarrow> string" where
  "show_int k = (if k < 0 then CHR ''-'' # nat_digits (nat (- k)) else nat_digits (nat k))"

definition df_report :: "string \<Rightarrow> string" where
  "df_report avail =
     ''Filesystem 1K-blocks Used Available Use% Mounted on'' @ [CHR 0x0A]
     @ ''/dev/root 9000 0 '' @ avail @ '' 0% /'' @ [CHR 0x0A]"

definition numfmt_table :: "string \<Rightarrow> string" where
  \<comment> \<open>what GNU numfmt 9.4 prints for \<open>--to=iec-i --suffix=B --padding=7\<close> and these numbers\<close>
  "numfmt_table number =
     (if number = ''0000'' then ''     0B'' @ [CHR 0x0A]
      else if number = ''-500000'' then ''-489KiB'' @ [CHR 0x0A]
      else if number = ''1048576000'' then ''1000MiB'' @ [CHR 0x0A]
      else if number = ''100000'' then ''  98KiB'' @ [CHR 0x0A]
      else if number = ''-40000'' then '' -40KiB'' @ [CHR 0x0A]
      else if number = ''60000'' then ''  59KiB'' @ [CHR 0x0A]
      else [])"

definition demo_exec :: "int \<Rightarrow> string list \<Rightarrow> proc \<times> int" where
  \<comment> \<open>the machine state is the number of free kilobytes on its one filesystem;
      removing a directory frees 100, switching swap off takes 140, and neither
      docker nor apt-get is installed\<close>
  "demo_exec w cmd =
     (case cmd of
        [] \<Rightarrow> (NotStarted, w)
      | prog # args \<Rightarrow>
          if prog = ''df'' then (Exited 0 (df_report (show_int w)), w)
          else if prog = ''numfmt'' then
            (case rev args of
               [] \<Rightarrow> (Exited 2 [], w)
             | number # _ \<Rightarrow> (Exited (if numfmt_table number = [] then 2 else 0)
                                 (numfmt_table number), w))
          else if prog = ''free'' then (Exited 0 ''Mem: 15Gi'', w)
          else if prog = ''sudo'' \<and> take 1 args = [''rm''] then (Exited 0 [], w + 100)
          else if prog = ''sudo'' \<and> take 1 args = [''swapoff''] then (Exited 0 [], w - 140)
          else if prog = ''sudo'' then (Exited 1 [], w)
          else (NotStarted, w))"

definition demo_host :: "int host" where
  "demo_host = \<lparr>exec = demo_exec, max_str_digits = 4300\<rparr>"

definition all_off :: env where
  \<comment> \<open>an environment that switches every stage off\<close>
  "all_off = [''INPUT_ANDROID'' \<mapsto> ''false'', ''INPUT_DOTNET'' \<mapsto> ''false'',
              ''INPUT_HASKELL'' \<mapsto> ''false'', ''INPUT_LARGE_PACKAGES'' \<mapsto> ''false'',
              ''INPUT_DOCKER_IMAGES'' \<mapsto> ''false'', ''INPUT_SWAP_STORAGE'' \<mapsto> ''false'']"

definition gas_events :: "string option \<Rightarrow> int \<Rightarrow> event list" where
  \<comment> \<open>the SDK calls of one \<open>get_available_space(path)\<close> that measured \<open>n\<close>\<close>
  "gas_events path n =
     Span ''disk.space''
       (''Get available space: '' @ (if opt_text path \<noteq> [] then opt_text path else ''all''))
     # (if opt_text path \<noteq> [] then [SetData ''disk.space'' ''path'' (TStr (opt_text path))] else [])
     @ [SetData ''disk.space'' ''available_kb'' (TInt n)]"

definition unsigned_rows :: "string \<Rightarrow> bool" where
  \<comment> \<open>no data row of the report has a fourth field that starts with a minus sign\<close>
  "unsigned_rows out =
     list_all (\<lambda>row. case drop 3 (py_split row) of [] \<Rightarrow> True | field # _ \<Rightarrow> take 1 field \<noteq> ''-'')
       (data_rows out)"

definition example_report :: string where
  \<comment> \<open>a report whose rows have 100, 200, x and 300 in the fourth field\<close>
  "example_report =
     ''Filesystem 1K-blocks Used Available Use% Mounted on'' @ [CHR 0x0A]
     @ ''/dev/a 1000 900 100 90% /'' @ [CHR 0x0A]
     @ ''/dev/b 1000 800 200 80% /b'' @ [CHR 0x0A]
     @ ''none - - x - /c'' @ [CHR 0x0A]
     @ ''/dev/d 1000 700 300 70% /d'' @ [CHR 0x0A]"

definition overfull_report :: string where
  \<comment> \<open>df on a filesystem filled beyond the blocks open to users: Available is negative\<close>
  "overfull_report =
     ''Filesystem 1K-blocks Used Available Use% Mounted on'' @ [CHR 0x0A]
     @ ''/dev/root 9000 9500 -500 106% /'' @ [CHR 0x0A]"

definition report_host :: "int \<Rightarrow> string \<Rightarrow> unit host" where
  \<comment> \<open>a machine on which every program ends with code \<open>rc\<close> after printing \<open>out\<close>\<close>
  "report_host rc out = \<lparr>exec = (\<lambda>w cmd. (Exited rc out, w)), max_str_digits = 4300\<rparr>"


definition rc_events :: "string \<Rightarrow> string list \<Rightarrow> string option \<Rightarrow> int \<Rightarrow> string \<Rightarrow> event list" where
  \<comment> \<open>what one \<open>run_command\<close> logs when the command ended with code \<open>rc\<close> after writing \<open>out\<close>\<close>
  "rc_events dsn cmd error_msg rc out =
     [Span ''command'' (''Command: '' @ py_join '' '' cmd),
      SetData ''command'' ''command'' (TStr (py_join '' '' cmd)),
      ChildOut out]
     @ (if rc = 0 then [SetData ''command'' ''status'' (TStr ''success'')]
        else (if opt_text error_msg \<noteq> [] then [Print (''::warning::'' @ opt_text error_msg)] else [])
             @ (if dsn \<noteq> []
                then [PushScope,
                      SetExtra ''command'' (TStr (py_join '' '' cmd)),
                      SetExtra ''returncode'' (TInt rc),
                      SetExtra ''stderr'' TNone,
                      Capture (CalledProcessError rc)]
                else []))"

definition completes :: "('w, 'a) prog \<Rightarrow> bool" where
  \<comment> \<open>the piece of the script returns, from every machine state, without raising\<close>
  "completes m = (\<forall>w. \<exists>x. result_of (m w) = Inr x)"

definition always_starts :: "'w host \<Rightarrow> bool" where
  \<comment> \<open>every program can be started and ends, in every state of the machine\<close>
  "always_starts h = (\<forall>w cmd. \<exists>rc out w'. exec h w cmd = (Exited rc out, w'))"

definition failing_host :: "unit host" where
  \<comment> \<open>a machine on which every program ends with code 1 and prints nothing\<close>
  "failing_host = \<lparr>exec = (\<lambda>w cmd. (Exited 1 [], w)), max_str_digits = 0\<rparr>"

definition quiet :: "('w, 'a) prog \<Rightarrow> bool" where
  \<comment> \<open>the piece of the script leaves nothing in the summary\<close>
  "quiet m = (\<forall>w. summary (log_of (m w)) = [])"

fun stage_op :: "stage \<Rightarrow> string" where
  \<comment> \<open>the op of the span that the stage's block opens\<close>
  "stage_op Android = ''cleanup.android''"
| "stage_op Dotnet = ''cleanup.dotnet''"
| "stage_op Haskell = ''cleanup.haskell''"
| "stage_op LargePackages = ''cleanup.packages''"
| "stage_op DockerImages = ''cleanup.docker''"
| "stage_op ToolCache = ''cleanup.toolcache''"
| "stage_op SwapStorage = ''cleanup.swap''"

fun stage_program :: "'w host \<Rightarrow> env \<Rightarrow> string \<Rightarrow> stage \<Rightarrow> ('w, unit) prog" where
  \<comment> \<open>the block of \<open>main\<close> that the stage's flag guards\<close>
  "stage_program h e dsn Android = android_stage h dsn"
| "stage_program h e dsn Dotnet = dotnet_stage h dsn"
| "stage_program h e dsn Haskell = haskell_stage h dsn"
| "stage_program h e dsn LargePackages = packages_stage h dsn"
| "stage_program h e dsn DockerImages = docker_stage h dsn"
| "stage_program h e dsn ToolCache = toolcache_stage h e dsn"
| "stage_program h e dsn SwapStorage = swap_stage h dsn"

definition closing_items :: "int \<Rightarrow> int \<Rightarrow> int \<Rightarrow> int \<Rightarrow> string \<Rightarrow> string \<Rightarrow> item list" where
  \<comment> \<open>what the final statistics leave in the summary, for the initial measurements
      \<open>a0\<close> (all mounts) and \<open>r0\<close> (root) and the final ones \<open>a1\<close> and \<open>r1\<close>\<close>
  "closing_items a0 r0 a1 r1 f1 f2 =
     [probe_all, Measured a1, probe_root, Measured r1, Total (a1 - a0),
      Reported (r1 - r0), Banner (''=> Saved '' @ f1),
      Reported (a1 - a0), Banner (''=> Saved '' @ f2)]"

definition stages_items :: "(stage \<times> int \<times> int \<times> string) list \<Rightarrow> item list" where
  \<comment> \<open>what the stages that ran leave in the summary, one after the other\<close>
  "stages_items xs =
     concat (map (\<lambda>(s, b, a, f). stage_items (stage_op s) (stage_title s) b a f) xs)"

definition digest :: "(py_error + 'a) \<times> 'w \<times> event list \<Rightarrow> (py_error + 'a) \<times> 'w \<times> item list" where
  \<comment> \<open>outcome, machine state and summary of a run\<close>
  "digest r = (case r of (res, w, l) \<Rightarrow> (res, w, summary l))"

definition only_android :: env where
  \<comment> \<open>an environment that leaves the Android stage on and switches the others off\<close>
  "only_android = all_off(''INPUT_ANDROID'' \<mapsto> ''true'')"

definition sim :: "('w, 'a) prog \<Rightarrow> ('w, 'a) prog \<Rightarrow> bool" where
  \<comment> \<open>two pieces of the script that cannot be told apart from any machine state\<close>
  "sim m1 m2 = (\<forall>w. same_observable (m1 w) (m2 w))"

fun on_console :: "event \<Rightarrow> bool" where
  "on_console (Print s) = True"
| "on_console (ChildOut s) = True"
| "on_console _ = False"

definition transcript :: "event list \<Rightarrow> event list" where
  \<comment> \<open>what reaches the console: the script's lines and the children's output\<close>
  "transcript l = filter on_console l"

definition with_dsn :: env where
  \<comment> \<open>an environment in which only the telemetry endpoint is set\<close>
  "with_dsn = [''SENTRY_DSN'' \<mapsto> ''https://key@sentry.example/1'']"

definition same_but_dsn :: "env \<Rightarrow> env \<Rightarrow> bool" where
  \<comment> \<open>two environments that agree on every variable but \<open>SENTRY_DSN\<close>\<close>
  "same_but_dsn e1 e2 = (\<forall>x. x \<noteq> ''SENTRY_DSN'' \<longrightarrow> e1 x = e2 x)"

section \<open>Properties of the measurement\<close>

lemma row_available_parts:
  "row_available lim row =
     (let parts = py_split row
      in if 4 \<le> length parts then (case py_int lim (parts ! 3) of Some n \<Rightarrow> n | None \<Rightarrow> 0) else 0)"
proof (cases "drop 3 (py_split row)")
  case Nil
  then show ?thesis by (simp add: row_available_def Let_def)
next
  case (Cons f fs)
  then have "length (drop 3 (py_split row)) \<noteq> 0" by simp
  then have len: "4 \<le> length (py_split row)" by simp
  then have "hd (drop 3 (py_split row)) = py_split row ! 3"
    by (simp add: hd_drop_conv_nth)
  with Cons len show ?thesis by (simp add: row_available_def Let_def split: option.splits)
qed

lemma add_available_sum:
  "add_available lim acc ls = acc + sum_list (map (row_available lim) ls)"
  by (induction ls arbitrary: acc) (auto simp: row_available_parts Let_def split: option.splits)


lemma parse_available_sum:
  "parse_available lim out = sum_list (map (row_available lim) (data_rows out))"
  by (simp add: parse_available_def add_available_sum)


lemma get_available_space_exited:
  assumes "exec h w (df_command path) = (Exited rc out, w')"
  shows "get_available_space h path w =
           (Inr (parse_available (max_str_digits h) out), w',
            gas_events path (parse_available (max_str_digits h) out))"
  using assms
  by (simp add: get_available_space_def thn_def bnd_def emit_def when_true_def ret_def
      run_captured_def gas_events_def Let_def)

lemma get_available_space_not_started:
  assumes "exec h w (df_command path) = (NotStarted, w')"
  shows "result_of (get_available_space h path w) = Inl OSError"
  using assms
  by (simp add: get_available_space_def thn_def bnd_def emit_def when_true_def ret_def
      run_captured_def result_of_def Let_def)

text \<open>
  Claim C3.  When df ends, whatever its exit code, \<open>get_available_space\<close> returns the sum
  over the data rows (the lines after the first of the stripped output) of what each row
  contributes: the integer in its fourth field, and zero for a row with fewer than four
  fields or with a fourth field that \<open>int\<close> rejects.  A report without data rows gives 0,
  and the rows 100, 200, x, 300 give 600.
\<close>

theorem get_available_space_sum:
  assumes "exec h w (df_command path) = (Exited rc out, w')"
  shows "result_of (get_available_space h path w)
           = Inr (sum_list (map (row_available (max_str_digits h)) (data_rows out)))
         \<and> (data_rows out = [] \<longrightarrow> result_of (get_available_space h path w) = Inr 0)
         \<and> (\<forall>row. length (py_split row) < 4 \<longrightarrow> row_available (max_str_digits h) row = 0)
         \<and> (\<forall>row. 4 \<le> length (py_split row) \<longrightarrow>
               row_available (max_str_digits h) row =
                 (case py_int (max_str_digits h) (py_split row ! 3) of None \<Rightarrow> 0 | Some n \<Rightarrow> n))"
  using get_available_space_exited[OF assms]
  by (simp add: result_of_def parse_available_sum row_available_parts Let_def)

lemma example_rows: "map (row_available 4300) (data_rows example_report) = [100, 200, 0, 300]"
  by code_simp

theorem get_available_space_sum_witness:
  "exec (report_host 0 example_report) () (df_command None) = (Exited 0 example_report, ())
   \<and> map (row_available 4300) (data_rows example_report) = [100, 200, 0, 300]
   \<and> result_of (get_available_space (report_host 0 example_report) None ()) = Inr 600"
proof -
  have e: "exec (report_host 0 example_report) () (df_command None) = (Exited 0 example_report, ())"
    by (simp add: report_host_def)
  have "result_of (get_available_space (report_host 0 example_report) None ())
          = Inr (sum_list (map (row_available (max_str_digits (report_host 0 example_report)))
                              (data_rows example_report)))"
    using get_available_space_sum[OF e] by blast
  moreover have "max_str_digits (report_host 0 example_report) = 4300"
    by (simp add: report_host_def)
  ultimately show ?thesis using e example_rows by simp
qed

text \<open>
  Claim C8 as stated fails: df prints a negative Available for an over-full filesystem,
  \<open>int\<close> accepts the sign, and the sum is negative.
\<close>

theorem get_available_space_negative:
  "result_of (get_available_space (report_host 0 overfull_report) (Some ''/'') ()) = Inr (- 500)"
  by code_simp

lemma py_int_no_minus: "py_int lim tok = Some n \<Longrightarrow> take 1 tok \<noteq> ''-'' \<Longrightarrow> 0 \<le> n"
  by (auto simp: py_int_def Let_def split: list.splits if_splits)

lemma row_available_no_minus:
  "(case drop 3 (py_split row) of [] \<Rightarrow> True | field # _ \<Rightarrow> take 1 field \<noteq> ''-'')
   \<Longrightarrow> 0 \<le> row_available lim row"
  by (auto simp: row_available_def split: list.splits option.splits dest: py_int_no_minus)

lemma parse_available_nonneg:
  assumes "unsigned_rows out"
  shows "0 \<le> parse_available lim out"
  unfolding parse_available_sum
  using assms by (intro sum_list_nonneg) (auto simp: unsigned_rows_def list_all_iff intro: row_available_no_minus)

text \<open>
  Claim C8, amended.  The result is not negative when no data row has a fourth field that
  starts with a minus sign.
\<close>

theorem get_available_space_nonneg:
  assumes "exec h w (df_command path) = (Exited rc out, w')" and "unsigned_rows out"
  shows "\<exists>n. result_of (get_available_space h path w) = Inr n \<and> 0 \<le> n"
  using get_available_space_exited[OF assms(1)] parse_available_nonneg[OF assms(2)]
  by (simp add: result_of_def)

theorem get_available_space_nonneg_witness:
  "exec (report_host 0 example_report) () (df_command None) = (Exited 0 example_report, ())
   \<and> unsigned_rows example_report
   \<and> (\<exists>n. result_of (get_available_space (report_host 0 example_report) None ()) = Inr n \<and> 0 \<le> n)"
proof -
  have e: "exec (report_host 0 example_report) () (df_command None) = (Exited 0 example_report, ())"
    by (simp add: report_host_def)
  have m: "unsigned_rows example_report" by code_simp
  from get_available_space_nonneg[OF e m] e m show ?thesis by blast
qed



section \<open>Properties of the configuration\<close>

lemma of_char_lower_char:
  "(of_char (lower_char a) :: nat) =
     (if (65 \<le> (of_char a :: nat) \<and> (of_char a :: nat) \<le> 90)
         \<or> (192 \<le> (of_char a :: nat) \<and> (of_char a :: nat) \<le> 222 \<and> (of_char a :: nat) \<noteq> 215)
      then of_char a + 32 else of_char a)"
  by (auto simp: lower_char_def Let_def)

lemma lower_char_letter:
  assumes "(of_char c :: nat) = of_char d + 32" and "65 \<le> (of_char d :: nat)" and "(of_char d :: nat) \<le> 90"
  shows "(lower_char a = c) = (a = c \<or> a = d)"
proof -
  have "(lower_char a = c) = ((of_char (lower_char a) :: nat) = of_char c)"
    by (simp only: of_char_eq_iff)
  also have "\<dots> = ((of_char a :: nat) = of_char c \<or> (of_char a :: nat) = of_char d)"
    using assms by (auto simp: of_char_lower_char)
  also have "\<dots> = (a = c \<or> a = d)"
    by (simp only: of_char_eq_iff)
  finally show ?thesis .
qed

lemma lower_t: "(lower_char a = CHR ''t'') = (a = CHR ''t'' \<or> a = CHR ''T'')"
  by (rule lower_char_letter) simp_all
lemma lower_r: "(lower_char a = CHR ''r'') = (a = CHR ''r'' \<or> a = CHR ''R'')"
  by (rule lower_char_letter) simp_all
lemma lower_u: "(lower_char a = CHR ''u'') = (a = CHR ''u'' \<or> a = CHR ''U'')"
  by (rule lower_char_letter) simp_all
lemma lower_e: "(lower_char a = CHR ''e'') = (a = CHR ''e'' \<or> a = CHR ''E'')"
  by (rule lower_char_letter) simp_all

lemma py_lower_true:
  "(py_lower v = ''true'') =
     (\<exists>a b c d. v = [a, b, c, d] \<and> a \<in> {CHR ''t'', CHR ''T''} \<and> b \<in> {CHR ''r'', CHR ''R''}
                \<and> c \<in> {CHR ''u'', CHR ''U''} \<and> d \<in> {CHR ''e'', CHR ''E''})"
proof -
  have "(py_lower v = ''true'') =
        (\<exists>a b c d. v = [a, b, c, d] \<and> lower_char a = CHR ''t'' \<and> lower_char b = CHR ''r''
                   \<and> lower_char c = CHR ''u'' \<and> lower_char d = CHR ''e'')"
    by (auto simp: py_lower_def map_eq_Cons_conv)
  then show ?thesis using lower_t lower_r lower_u lower_e by simp
qed

lemma flag_variables:
  "map (\<lambda>s. ''INPUT_'' @ py_upper (py_replace (CHR ''-'') (CHR ''_'') (stage_flag s))) stage_order
     = [''INPUT_ANDROID'', ''INPUT_DOTNET'', ''INPUT_HASKELL'', ''INPUT_LARGE_PACKAGES'',
        ''INPUT_DOCKER_IMAGES'', ''INPUT_TOOL_CACHE'', ''INPUT_SWAP_STORAGE'']"
  by code_simp

lemma flag_defaults:
  "map (stage_enabled Map.empty) stage_order = [True, True, True, True, True, False, True]"
  by code_simp

text \<open>
  Claim C7.  \<open>get_input\<close> reads the variable named \<open>INPUT_\<close> followed by the flag name with
  hyphens turned into underscores and in upper case, takes the default when the variable
  is not set, and is true exactly for the sixteen spellings of \<open>true\<close> in either case.
  With nothing set in the environment every stage is on but the tool cache.
\<close>

theorem get_input_flag_rule:
  "get_input e name dflt =
     (py_lower (case e (''INPUT_'' @ py_upper (py_replace (CHR ''-'') (CHR ''_'') name)) of
                  None \<Rightarrow> dflt | Some v \<Rightarrow> v) = ''true'')
   \<and> (py_lower v = ''true'') =
       (\<exists>a b c d. v = [a, b, c, d] \<and> a \<in> {CHR ''t'', CHR ''T''} \<and> b \<in> {CHR ''r'', CHR ''R''}
                  \<and> c \<in> {CHR ''u'', CHR ''U''} \<and> d \<in> {CHR ''e'', CHR ''E''})
   \<and> map (\<lambda>s. ''INPUT_'' @ py_upper (py_replace (CHR ''-'') (CHR ''_'') (stage_flag s))) stage_order
       = [''INPUT_ANDROID'', ''INPUT_DOTNET'', ''INPUT_HASKELL'', ''INPUT_LARGE_PACKAGES'',
          ''INPUT_DOCKER_IMAGES'', ''INPUT_TOOL_CACHE'', ''INPUT_SWAP_STORAGE'']
   \<and> map (stage_enabled Map.empty) stage_order = [True, True, True, True, True, False, True]"
proof -
  have "get_input e name dflt =
     (py_lower (case e (''INPUT_'' @ py_upper (py_replace (CHR ''-'') (CHR ''_'') name)) of
                  None \<Rightarrow> dflt | Some v \<Rightarrow> v) = ''true'')"
    by (simp add: get_input_def getenv_def)
  then show ?thesis
    using py_lower_true[of v] flag_variables flag_defaults by blast
qed

section \<open>Properties of the formatting\<close>
























section \<open>Properties of running commands\<close>

lemma run_command_exited:
  assumes "exec h w cmd = (Exited rc out, w')"
  shows "run_command h dsn cmd error_msg w = (Inr (rc = 0), w', rc_events dsn cmd error_msg rc out)"
  using assms
  by (simp add: run_command_def thn_def bnd_def emit_def emits_def when_true_def ret_def
      run_inherit_def rc_events_def)

lemma printed_append [simp]: "printed (l1 @ l2) = printed l1 @ printed l2"
  by (simp add: printed_def)

lemma batch_results_append [simp]: "batch_results (l1 @ l2) = batch_results l1 @ batch_results l2"
  by (simp add: batch_results_def)

lemma printed_rc_events:
  "printed (rc_events dsn cmd error_msg rc out) =
     (if rc \<noteq> 0 \<and> opt_text error_msg \<noteq> [] then [''::warning::'' @ opt_text error_msg] else [])"
  by (auto simp: rc_events_def printed_def)

lemma batch_results_rc_events: "batch_results (rc_events dsn cmd error_msg rc out) = []"
  by (auto simp: rc_events_def batch_results_def)

lemma batch_results_Cons [simp]: "batch_results (e # l) = success_of e @ batch_results l"
  by (simp add: batch_results_def)

lemma batch_results_Nil [simp]: "batch_results [] = []"
  by (simp add: batch_results_def)

lemma package_step_exited:
  assumes "exec h w cmd = (Exited rc out, w')"
  shows "\<exists>l. package_step h dsn n (i, cmd) w = (Inr (), w', l) \<and> batch_results l = [rc = 0]"
  using run_command_exited[OF assms, of dsn]
  by (simp add: package_step_def thn_def bnd_def emit_def batch_results_rc_events)

lemma for_each_package_steps:
  assumes "\<forall>w. \<forall>c \<in> set cmds. \<exists>rc out w'. exec h w c = (Exited rc out, w')"
  shows "\<exists>w' l. for_each (package_step h dsn n) (enumerate i cmds) w = (Inr (), w', l)
               \<and> length (batch_results l) = length cmds"
  using assms
proof (induction cmds arbitrary: i w)
  case Nil
  then show ?case by (simp add: ret_def)
next
  case (Cons c cs)
  obtain rc out w1 where e: "exec h w c = (Exited rc out, w1)" using Cons.prems by fastforce
  obtain l1 where s: "package_step h dsn n (i, c) w = (Inr (), w1, l1)" "batch_results l1 = [rc = 0]"
    using package_step_exited[OF e] by blast
  have "\<forall>w. \<forall>c \<in> set cs. \<exists>rc out w'. exec h w c = (Exited rc out, w')" using Cons.prems by simp
  then obtain w2 l2 where r: "for_each (package_step h dsn n) (enumerate (Suc i) cs) w1 = (Inr (), w2, l2)"
      "length (batch_results l2) = length cs"
    using Cons.IH[of "Suc i" w1] by blast
  show ?case using s r by (simp add: thn_def bnd_def)
qed

lemma run_batch_pair:
  assumes "exec h w a = (Exited rca oa, w1)" and "rca \<noteq> 0" and "exec h w1 b = (Exited 0 ob, w2)"
  shows "\<exists>l. run_batch h dsn [a, b] w = (Inr (), w2, l) \<and> batch_results l = [False, True]"
proof -
  obtain l1 where s1: "package_step h dsn (Suc (Suc 0)) (0, a) w = (Inr (), w1, l1)" "batch_results l1 = [rca = 0]"
    using package_step_exited[OF assms(1)] by blast
  obtain l2 where s2: "package_step h dsn (Suc (Suc 0)) (Suc 0, b) w1 = (Inr (), w2, l2)" "batch_results l2 = [(0::int) = 0]"
    using package_step_exited[OF assms(3)] by blast
  show ?thesis using s1 s2 assms(2)
    by (simp add: run_batch_def enumerate_eq_zip thn_def bnd_def ret_def upt_rec)
qed

lemma completes_ret: "completes (ret x)"
  by (simp add: completes_def ret_def result_of_def)

lemma completes_emit: "completes (emit e)"
  by (simp add: completes_def emit_def result_of_def)

lemma completes_emits: "completes (emits es)"
  by (simp add: completes_def emits_def result_of_def)

lemma completes_bnd:
  assumes "completes m" and "\<And>x. completes (f x)"
  shows "completes (bnd m f)"
  unfolding completes_def
proof
  fix w
  obtain x where "result_of (m w) = Inr x" using assms(1) by (auto simp: completes_def)
  then obtain w1 l1 where m: "m w = (Inr x, w1, l1)"
    by (cases "m w") (auto simp: result_of_def)
  obtain y where "result_of (f x w1) = Inr y" using assms(2)[of x] by (auto simp: completes_def)
  then obtain w2 l2 where f: "f x w1 = (Inr y, w2, l2)"
    by (cases "f x w1") (auto simp: result_of_def)
  show "\<exists>y. result_of (bnd m f w) = Inr y"
    using m f by (simp add: bnd_def result_of_def)
qed

lemma completes_thn: "completes m \<Longrightarrow> completes k \<Longrightarrow> completes (thn m k)"
  by (simp add: thn_def completes_bnd)

lemma completes_when: "completes m \<Longrightarrow> completes (when_true b m)"
  by (simp add: when_true_def completes_ret)

lemma completes_for_each: "(\<And>x. completes (f x)) \<Longrightarrow> completes (for_each f xs)"
  by (induction xs) (simp_all add: completes_ret completes_thn)

lemma completes_run_captured:
  assumes "always_starts h"
  shows "completes (run_captured h cmd)"
  unfolding completes_def
proof
  fix w
  obtain rc out w' where "exec h w cmd = (Exited rc out, w')"
    using assms unfolding always_starts_def by blast
  then show "\<exists>x. result_of (run_captured h cmd w) = Inr x"
    by (simp add: run_captured_def result_of_def)
qed

lemma completes_run_inherit:
  assumes "always_starts h"
  shows "completes (run_inherit h cmd)"
  unfolding completes_def
proof
  fix w
  obtain rc out w' where "exec h w cmd = (Exited rc out, w')"
    using assms unfolding always_starts_def by blast
  then show "\<exists>x. result_of (run_inherit h cmd w) = Inr x"
    by (simp add: run_inherit_def result_of_def)
qed

lemmas completes_intros =
  completes_ret completes_emit completes_emits completes_bnd completes_thn completes_when
  completes_for_each completes_run_captured completes_run_inherit

lemma completes_print_separation_line: "completes (print_separation_line ch n)"
  by (simp add: print_separation_line_def completes_emit)

lemma completes_get_available_space: "always_starts h \<Longrightarrow> completes (get_available_space h path)"
  unfolding get_available_space_def
  by (intro completes_intros) (auto simp: split_def Let_def intro!: completes_intros)

lemma py_str_uncapped: "\<exists>t. py_str 0 kb = Some t"
  by (simp add: py_str_def over_limit_def Let_def)

lemma completes_format_byte_count:
  assumes "always_starts h" and "max_str_digits h = 0"
  shows "completes (format_byte_count h kb)"
proof -
  obtain t where t: "py_str (max_str_digits h) kb = Some t"
    using py_str_uncapped[of kb] assms(2) by auto
  show ?thesis
    unfolding format_byte_count_def t option.case
    using assms(1) by (intro completes_intros) (auto simp: split_def Let_def intro!: completes_intros)
qed

lemma completes_print_saved_space:
  assumes "always_starts h" and "max_str_digits h = 0"
  shows "completes (print_saved_space h saved title)"
  unfolding print_saved_space_def
  using assms
  by (intro completes_intros completes_print_separation_line completes_format_byte_count)
     (auto intro!: completes_intros)

lemma completes_print_dh: "always_starts h \<Longrightarrow> completes (print_dh h caption)"
  unfolding print_dh_def
  by (intro completes_intros completes_print_separation_line) auto

lemma completes_run_command: "always_starts h \<Longrightarrow> completes (run_command h dsn cmd error_msg)"
  unfolding run_command_def
  by (intro completes_intros) (auto intro!: completes_intros)

lemma completes_stage_block:
  assumes "always_starts h" and "max_str_digits h = 0" and "completes operations"
  shows "completes (stage_block h op description title operations)"
  unfolding stage_block_def Let_def
  using assms
  by (intro completes_intros completes_get_available_space completes_format_byte_count
      completes_print_saved_space) auto

lemma completes_run_batch: "always_starts h \<Longrightarrow> completes (run_batch h dsn cmds)"
  unfolding run_batch_def
  by (rule completes_for_each)
     (auto simp: package_step_def split_def intro!: completes_intros completes_run_command)

lemma completes_tool_cache: "always_starts h \<Longrightarrow> completes (tool_cache_operations h e dsn)"
  unfolding tool_cache_operations_def Let_def
  by (intro completes_intros completes_run_command) auto

lemma completes_initial_measurement: "always_starts h \<Longrightarrow> completes (initial_measurement h)"
  unfolding initial_measurement_def
  by (intro completes_intros completes_get_available_space completes_print_dh) auto

lemma completes_final_statistics:
  assumes "always_starts h" and "max_str_digits h = 0"
  shows "completes (final_statistics h a r)"
  unfolding final_statistics_def Let_def
  using assms
  by (intro completes_intros completes_get_available_space completes_print_dh
      completes_format_byte_count completes_print_saved_space) auto

lemma completes_main:
  assumes "always_starts h" and "max_str_digits h = 0"
  shows "completes (main h e dsn)"
  unfolding main_def android_stage_def dotnet_stage_def haskell_stage_def packages_stage_def
    docker_stage_def toolcache_stage_def swap_stage_def
  using assms
  by (intro completes_intros completes_initial_measurement)
     (auto simp: split_def intro!: completes_intros completes_stage_block completes_run_command
        completes_run_batch completes_tool_cache completes_final_statistics)

lemma demo_docker_fails:
  "exec demo_host 500 [''sudo'', ''docker'', ''image'', ''prune'', ''--all'', ''--force'']
     = (Exited 1 [], 500)"
  by code_simp

text \<open>
  Claim C1 as stated fails: \<open>run_command\<close> prints the warning only when the caller gave
  an \<open>error_msg\<close>.  The Docker stage gives none, so when \<open>docker image prune\<close> ends with
  code 1 the call returns \<open>False\<close> and prints nothing.
\<close>

theorem run_command_silent_failure:
  "result_of (run_command demo_host []
       [''sudo'', ''docker'', ''image'', ''prune'', ''--all'', ''--force''] None 500) = Inr False
   \<and> printed (log_of (run_command demo_host []
       [''sudo'', ''docker'', ''image'', ''prune'', ''--all'', ''--force''] None 500)) = []"
  using run_command_exited[OF demo_docker_fails, of "[]" None]
  by (simp add: result_of_def log_of_def printed_rc_events opt_text_def)

text \<open>
  Claim C1, amended.  A command that starts and ends with a non-zero code makes
  \<open>run_command\<close> return \<open>False\<close> without raising; it prints the line
  \<open>::warning::\<close> followed by \<open>error_msg\<close> exactly when a non-empty \<open>error_msg\<close> was given
  (in \<open>main\<close>: the package commands only).  The loop over a batch goes on after a failure:
  for a failing \<open>a\<close> and a succeeding \<open>b\<close> both are run and the results are
  \<open>False, True\<close>, and a batch of commands that all start yields one result per command.
  On a machine where every program starts (and an interpreter without digit cap)
  \<open>main\<close> runs to its end whatever the exit codes are.
\<close>

theorem run_command_failure_continues:
  "(exec h w cmd = (Exited rc out, w') \<and> rc \<noteq> 0 \<longrightarrow>
      result_of (run_command h dsn cmd error_msg w) = Inr False
      \<and> world_of (run_command h dsn cmd error_msg w) = w'
      \<and> printed (log_of (run_command h dsn cmd error_msg w))
          = (if opt_text error_msg \<noteq> [] then [''::warning::'' @ opt_text error_msg] else []))
   \<and> (exec h w a = (Exited rca oa, w1) \<and> rca \<noteq> 0 \<and> exec h w1 b = (Exited 0 ob, w2) \<longrightarrow>
      result_of (run_batch h dsn [a, b] w) = Inr ()
      \<and> world_of (run_batch h dsn [a, b] w) = w2
      \<and> batch_results (log_of (run_batch h dsn [a, b] w)) = [False, True])
   \<and> ((\<forall>w. \<forall>c \<in> set cmds. \<exists>rc out w'. exec h w c = (Exited rc out, w')) \<longrightarrow>
      result_of (run_batch h dsn cmds w) = Inr ()
      \<and> length (batch_results (log_of (run_batch h dsn cmds w))) = length cmds)
   \<and> (always_starts h \<and> max_str_digits h = 0 \<longrightarrow> result_of (main h e dsn w) = Inr ())"
proof (intro conjI impI)
  assume a: "exec h w cmd = (Exited rc out, w') \<and> rc \<noteq> 0"
  then have r: "run_command h dsn cmd error_msg w = (Inr False, w', rc_events dsn cmd error_msg rc out)"
    using run_command_exited[of h w cmd rc out w' dsn error_msg] by simp
  show "result_of (run_command h dsn cmd error_msg w) = Inr False"
    by (simp add: r result_of_def)
  show "world_of (run_command h dsn cmd error_msg w) = w'"
    by (simp add: r world_of_def)
  show "printed (log_of (run_command h dsn cmd error_msg w))
          = (if opt_text error_msg \<noteq> [] then [''::warning::'' @ opt_text error_msg] else [])"
    using a by (simp add: r log_of_def printed_rc_events)
next
  assume "exec h w a = (Exited rca oa, w1) \<and> rca \<noteq> 0 \<and> exec h w1 b = (Exited 0 ob, w2)"
  then obtain l where l: "run_batch h dsn [a, b] w = (Inr (), w2, l)" "batch_results l = [False, True]"
    using run_batch_pair[of h w a rca oa w1 b ob w2 dsn] by blast
  show "result_of (run_batch h dsn [a, b] w) = Inr ()" by (simp add: l result_of_def)
  show "world_of (run_batch h dsn [a, b] w) = w2" by (simp add: l world_of_def)
  show "batch_results (log_of (run_batch h dsn [a, b] w)) = [False, True]"
    by (simp add: l log_of_def)
next
  assume "\<forall>w. \<forall>c \<in> set cmds. \<exists>rc out w'. exec h w c = (Exited rc out, w')"
  then obtain w' l where l: "run_batch h dsn cmds w = (Inr (), w', l)"
      "length (batch_results l) = length cmds"
    using for_each_package_steps[of cmds h dsn "length cmds" 0 w] unfolding run_batch_def by blast
  show "result_of (run_batch h dsn cmds w) = Inr ()" by (simp add: l result_of_def)
  show "length (batch_results (log_of (run_batch h dsn cmds w))) = length cmds"
    by (simp add: l log_of_def)
next
  assume "always_starts h \<and> max_str_digits h = 0"
  then have "completes (main h e dsn)" by (simp add: completes_main)
  then show "result_of (main h e dsn w) = Inr ()" by (auto simp: completes_def)
qed

lemma demo_clean_fails: "exec demo_host 500 [''sudo'', ''apt-get'', ''clean''] = (Exited 1 [], 500)"
  by code_simp

lemma demo_rm_works:
  "exec demo_host 500 [''sudo'', ''rm'', ''-f'', ''/mnt/swapfile''] = (Exited 0 [], 600)"
  by code_simp

lemma failing_host_starts: "always_starts failing_host \<and> max_str_digits failing_host = 0"
  by (simp add: always_starts_def failing_host_def)

theorem run_command_failure_continues_witness:
  "exec demo_host 500 [''sudo'', ''apt-get'', ''clean''] = (Exited 1 [], 500)
   \<and> exec demo_host 500 [''sudo'', ''rm'', ''-f'', ''/mnt/swapfile''] = (Exited 0 [], 600)
   \<and> result_of (run_command demo_host [] [''sudo'', ''apt-get'', ''clean''] (Some ''clean failed'') 500)
       = Inr False
   \<and> printed (log_of (run_command demo_host [] [''sudo'', ''apt-get'', ''clean'']
                         (Some ''clean failed'') 500)) = [''::warning::clean failed'']
   \<and> batch_results (log_of (run_batch demo_host []
         [[''sudo'', ''apt-get'', ''clean''], [''sudo'', ''rm'', ''-f'', ''/mnt/swapfile'']] 500))
       = [False, True]
   \<and> world_of (run_batch demo_host []
         [[''sudo'', ''apt-get'', ''clean''], [''sudo'', ''rm'', ''-f'', ''/mnt/swapfile'']] 500) = 600
   \<and> always_starts failing_host
   \<and> result_of (main failing_host Map.empty [] ()) = Inr ()"
proof -
  note t1 = run_command_failure_continues[where h = demo_host and w = 500
      and cmd = "[''sudo'', ''apt-get'', ''clean'']" and rc = 1 and out = "[]" and w' = 500
      and dsn = "[]" and error_msg = "Some ''clean failed''"
      and a = "[''sudo'', ''apt-get'', ''clean'']" and rca = 1 and oa = "[]" and ?w1.0 = 500
      and b = "[''sudo'', ''rm'', ''-f'', ''/mnt/swapfile'']" and ob = "[]" and ?w2.0 = 600]
  note t2 = run_command_failure_continues[where h = failing_host and e = Map.empty
      and dsn = "[]" and w = "()"]
  from t1 demo_clean_fails demo_rm_works
  have "result_of (run_command demo_host [] [''sudo'', ''apt-get'', ''clean''] (Some ''clean failed'') 500)
          = Inr False"
    and "printed (log_of (run_command demo_host [] [''sudo'', ''apt-get'', ''clean'']
                         (Some ''clean failed'') 500)) = [''::warning::clean failed'']"
    and "batch_results (log_of (run_batch demo_host []
         [[''sudo'', ''apt-get'', ''clean''], [''sudo'', ''rm'', ''-f'', ''/mnt/swapfile'']] 500))
       = [False, True]"
    and "world_of (run_batch demo_host []
         [[''sudo'', ''apt-get'', ''clean''], [''sudo'', ''rm'', ''-f'', ''/mnt/swapfile'']] 500) = 600"
    by (simp_all add: opt_text_def)
  moreover from t2 failing_host_starts
  have "result_of (main failing_host Map.empty [] ()) = Inr ()" by blast
  ultimately show ?thesis using demo_clean_fails demo_rm_works failing_host_starts by blast
qed

section \<open>Properties of the stages and of the whole run\<close>

subsection \<open>Sequencing\<close>

lemma bnd_InrE:
  assumes "bnd m f w = (Inr y, w', l)"
  obtains x w1 l1 l2 where "m w = (Inr x, w1, l1)" and "f x w1 = (Inr y, w', l2)" and "l = l1 @ l2"
  using assms by (auto simp: bnd_def split: prod.splits sum.splits)

lemma thn_InrE:
  assumes "thn m k w = (Inr y, w', l)"
  obtains x w1 l1 l2 where "m w = (Inr x, w1, l1)" and "k w1 = (Inr y, w', l2)" and "l = l1 @ l2"
  using assms unfolding thn_def by (erule bnd_InrE)

lemma emit_InrE:
  assumes "emit e w = (r, w', l)"
  obtains "r = Inr ()" and "w' = w" and "l = [e]"
  using assms by (auto simp: emit_def)

lemma bnd_assoc: "bnd (bnd m f) g = bnd m (\<lambda>x. bnd (f x) g)"
  by (rule ext) (auto simp: bnd_def split: prod.splits sum.splits)

lemma thn_assoc: "thn (thn m k) j = thn m (thn k j)"
  by (simp add: thn_def bnd_assoc)

lemma thn_ret: "thn (ret x) k = k"
  by (rule ext) (auto simp: thn_def bnd_def ret_def split: prod.splits)

lemma log_bnd:
  "log_of (bnd m f w) =
     (case m w of (Inl e, w1, l1) \<Rightarrow> l1 | (Inr x, w1, l1) \<Rightarrow> l1 @ log_of (f x w1))"
  by (auto simp: bnd_def log_of_def split: prod.splits sum.splits)

subsection \<open>The summary of a log\<close>

lemma summary_append [simp]: "summary (l1 @ l2) = summary l1 @ summary l2"
  by (simp add: summary_def)

lemma summary_Cons [simp]: "summary (e # l) = item_of e @ summary l"
  by (simp add: summary_def)

lemma summary_Nil [simp]: "summary [] = []"
  by (simp add: summary_def)

lemma quiet_ret: "quiet (ret x)"
  by (simp add: quiet_def ret_def log_of_def)

lemma quiet_throw: "quiet (throw x)"
  by (simp add: quiet_def throw_def log_of_def)

lemma quiet_emit: "item_of e = [] \<Longrightarrow> quiet (emit e)"
  by (simp add: quiet_def emit_def log_of_def)

lemma quiet_emits: "summary es = [] \<Longrightarrow> quiet (emits es)"
  by (simp add: quiet_def emits_def log_of_def)

lemma quiet_bnd:
  assumes "quiet m" and "\<And>x. quiet (f x)"
  shows "quiet (bnd m f)"
  unfolding quiet_def
proof
  fix w
  have m: "summary (log_of (m w)) = []" using assms(1) by (simp add: quiet_def)
  show "summary (log_of (bnd m f w)) = []"
  proof (cases "m w")
    case (fields r w1 l1)
    then have l1: "summary l1 = []" using m by (simp add: log_of_def)
    show ?thesis
    proof (cases r)
      case (Inl err)
      then show ?thesis using fields l1 by (simp add: log_bnd)
    next
      case (Inr x)
      have "summary (log_of (f x w1)) = []" using assms(2)[of x] by (simp add: quiet_def)
      then show ?thesis using fields l1 Inr by (simp add: log_bnd)
    qed
  qed
qed

lemma quiet_thn: "quiet m \<Longrightarrow> quiet k \<Longrightarrow> quiet (thn m k)"
  by (simp add: thn_def quiet_bnd)

lemma quiet_when: "quiet m \<Longrightarrow> quiet (when_true b m)"
  by (simp add: when_true_def quiet_ret)

lemma quiet_for_each: "(\<And>x. quiet (f x)) \<Longrightarrow> quiet (for_each f xs)"
  by (induction xs) (simp_all add: quiet_ret quiet_thn)

lemma quiet_run_captured: "quiet (run_captured h cmd)"
  by (auto simp: quiet_def run_captured_def log_of_def split: prod.splits proc.splits)

lemma quiet_run_inherit: "quiet (run_inherit h cmd)"
  by (auto simp: quiet_def run_inherit_def log_of_def split: prod.splits proc.splits)

lemmas quiet_intros =
  quiet_ret quiet_throw quiet_emit quiet_emits quiet_bnd quiet_thn quiet_when quiet_for_each
  quiet_run_captured quiet_run_inherit

lemma quiet_run_command: "quiet (run_command h dsn cmd error_msg)"
  unfolding run_command_def
  by (intro quiet_intros) (auto intro!: quiet_intros)

lemma quiet_package_step: "quiet (package_step h dsn n x)"
  unfolding package_step_def split_def
  by (intro quiet_intros quiet_run_command) auto

lemma quiet_run_batch: "quiet (run_batch h dsn cmds)"
  unfolding run_batch_def by (rule quiet_for_each) (rule quiet_package_step)

lemma quiet_tool_cache: "quiet (tool_cache_operations h e dsn)"
  unfolding tool_cache_operations_def Let_def
  by (intro quiet_intros quiet_run_command) auto

lemma quiet_format_byte_count: "quiet (format_byte_count h kb)"
  unfolding format_byte_count_def
  by (intro quiet_intros) (auto simp: split_def Let_def split: option.splits intro!: quiet_intros)

lemma separator_no_banner: "take 3 (concat (replicate 80 [c])) = [c, c, c]"
  by (simp add: eval_nat_numeral)

lemma quiet_print_separation_line:
  assumes "c \<noteq> CHR ''>''"
  shows "quiet (print_separation_line [c] 80)"
proof -
  have "[c, c, c] \<noteq> ''=> ''" using assms by simp
  then have "item_of (Print (concat (replicate 80 [c]))) = []"
    by (simp only: item_of.simps separator_no_banner if_False)
  then show ?thesis unfolding print_separation_line_def by (rule quiet_emit)
qed

lemma quiet_print_dh:
  assumes "take 3 (opt_text caption) \<noteq> ''=> ''"
  shows "quiet (print_dh h caption)"
  unfolding print_dh_def
  using assms
  by (intro quiet_intros quiet_print_separation_line) auto

lemma quiet_summary: "quiet m \<Longrightarrow> m w = (r, w', l) \<Longrightarrow> summary l = []"
  unfolding quiet_def log_of_def by (metis snd_conv)

lemma summary_gas_events:
  "summary (gas_events path n) =
     [Probe (''Get available space: '' @ (if opt_text path \<noteq> [] then opt_text path else ''all'')),
      Measured n]"
  by (simp add: gas_events_def)

lemma get_available_space_log:
  assumes "get_available_space h path w = (Inr n, w', l)"
  shows "l = gas_events path n"
proof (cases "exec h w (df_command path)")
  case (Pair p w1)
  show ?thesis
  proof (cases p)
    case (Exited rc out)
    then show ?thesis using get_available_space_exited[of h w path rc out w1] Pair assms by simp
  next
    case NotStarted
    then show ?thesis using get_available_space_not_started[of h w path w1] Pair assms
      by (simp add: result_of_def)
  qed
qed

lemma get_available_space_summary_all:
  assumes "get_available_space h None w = (Inr n, w', l)"
  shows "summary l = [probe_all, Measured n]"
  using get_available_space_log[OF assms] by (simp add: summary_gas_events opt_text_def probe_all_def)

lemma get_available_space_summary_root:
  assumes "get_available_space h (Some ''/'') w = (Inr n, w', l)"
  shows "summary l = [probe_root, Measured n]"
  using get_available_space_log[OF assms] by (simp add: summary_gas_events opt_text_def probe_root_def)

lemma print_saved_space_titled:
  assumes "print_saved_space h saved (Some title) w = (Inr (), w', l)" and "title \<noteq> []"
  shows "\<exists>f w1 w2 lf. format_byte_count h saved w1 = (Inr f, w2, lf)
           \<and> summary l = [Title title, Reported saved, Banner (''=> '' @ title @ '': Saved '' @ f)]"
  using assms unfolding print_saved_space_def print_separation_line_def when_true_def opt_text_def
  apply (simp del: replicate.simps)
  apply (elim thn_InrE bnd_InrE emit_InrE)
  apply (frule quiet_summary[OF quiet_format_byte_count])
  apply (auto simp add: numeral_3_eq_3)
  done

lemma print_saved_space_untitled:
  assumes "print_saved_space h saved None w = (Inr (), w', l)"
  shows "\<exists>f w1 w2 lf. format_byte_count h saved w1 = (Inr f, w2, lf)
           \<and> summary l = [Reported saved, Banner (''=> Saved '' @ f)]"
  using assms unfolding print_saved_space_def print_separation_line_def when_true_def opt_text_def
  apply (simp del: replicate.simps)
  apply (elim thn_InrE bnd_InrE emit_InrE)
  apply (frule quiet_summary[OF quiet_format_byte_count])
  apply (auto simp add: numeral_3_eq_3 ret_def)
  done

lemma stage_block_summary:
  assumes "stage_block h op description title operations w = (Inr (), w', l)"
    and "quiet operations" and "title \<noteq> []"
    and "op \<noteq> ''disk.space''" and "op \<noteq> ''utility.report''"
  shows "\<exists>b a f w1 w2 lf. format_byte_count h (a - b) w1 = (Inr f, w2, lf)
           \<and> summary l = stage_items op title b a f"
proof -
  from assms(1) obtain b wa wb lb a wc lc wd ld f we le lp
    where gb: "get_available_space h None wa = (Inr b, wb, lb)"
      and ops: "operations wb = (Inr (), wc, lc)"
      and ga: "get_available_space h None wc = (Inr a, wd, ld)"
      and fm: "format_byte_count h (a - b) wd = (Inr f, we, le)"
      and ps: "print_saved_space h (a - b) (Some title) we = (Inr (), w', lp)"
      and l: "l = [Span op description] @ lb @ lc @ ld @ [SetData op ''saved_kb'' (TInt (a - b))]
                  @ le @ [SetData op ''saved_formatted'' (TStr f)] @ lp"
    unfolding stage_block_def Let_def
    by (elim thn_InrE bnd_InrE emit_InrE) auto
  obtain f' w1 w2 lf where f': "format_byte_count h (a - b) w1 = (Inr f', w2, lf)"
      "summary lp = [Title title, Reported (a - b), Banner (''=> '' @ title @ '': Saved '' @ f')]"
    using print_saved_space_titled[OF ps assms(3)] by blast
  have "summary l = stage_items op title b a f'"
    unfolding l
    using get_available_space_summary_all[OF gb] get_available_space_summary_all[OF ga]
      quiet_summary[OF assms(2) ops] quiet_summary[OF quiet_format_byte_count fm] f'(2) assms(4,5)
    by (simp add: stage_items_def)
  with f'(1) show ?thesis by blast
qed

lemma stage_program_summary:
  assumes "stage_program h e dsn s w = (Inr (), w', l)"
  shows "\<exists>b a f w1 w2 lf. format_byte_count h (a - b) w1 = (Inr f, w2, lf)
           \<and> summary l = stage_items (stage_op s) (stage_title s) b a f"
proof (cases s)
  case Android
  show ?thesis
    using stage_block_summary[OF assms[unfolded Android stage_program.simps android_stage_def]]
    by (simp add: Android quiet_thn quiet_run_command quiet_ret quiet_run_batch quiet_tool_cache)
next
  case Dotnet
  show ?thesis
    using stage_block_summary[OF assms[unfolded Dotnet stage_program.simps dotnet_stage_def]]
    by (simp add: Dotnet quiet_thn quiet_run_command quiet_ret quiet_run_batch quiet_tool_cache)
next
  case Haskell
  show ?thesis
    using stage_block_summary[OF assms[unfolded Haskell stage_program.simps haskell_stage_def]]
    by (simp add: Haskell quiet_thn quiet_run_command quiet_ret quiet_run_batch quiet_tool_cache)
next
  case LargePackages
  show ?thesis
    using stage_block_summary[OF assms[unfolded LargePackages stage_program.simps packages_stage_def]]
    by (simp add: LargePackages quiet_thn quiet_run_command quiet_ret quiet_run_batch quiet_tool_cache)
next
  case DockerImages
  show ?thesis
    using stage_block_summary[OF assms[unfolded DockerImages stage_program.simps docker_stage_def]]
    by (simp add: DockerImages quiet_thn quiet_run_command quiet_ret quiet_run_batch quiet_tool_cache)
next
  case ToolCache
  show ?thesis
    using stage_block_summary[OF assms[unfolded ToolCache stage_program.simps toolcache_stage_def]]
    by (simp add: ToolCache quiet_thn quiet_run_command quiet_ret quiet_run_batch quiet_tool_cache)
next
  case SwapStorage
  show ?thesis
    using stage_block_summary[OF assms[unfolded SwapStorage stage_program.simps swap_stage_def]]
    by (simp add: SwapStorage quiet_thn quiet_run_command quiet_ret quiet_run_batch quiet_tool_cache)
qed

lemma initial_measurement_summary:
  assumes "initial_measurement h w = (Inr (a0, r0), w', l)"
  shows "summary l = [probe_all, Measured a0, probe_root, Measured r0]"
proof -
  from assms obtain wa wb la wc lb wd ld
    where ga: "get_available_space h None wa = (Inr a0, wb, la)"
      and gr: "get_available_space h (Some ''/'') wb = (Inr r0, wc, lb)"
      and dh: "print_dh h (Some ''BEFORE CLEAN-UP:'') wc = (Inr (), wd, ld)"
      and l: "l = [Span ''cleanup.init'' ''Initial space measurement''] @ la @ lb
                  @ [SetData ''cleanup.init'' ''initial_kb'' (TInt a0),
                     SetData ''cleanup.init'' ''initial_root_kb'' (TInt r0)] @ ld @ [Print []]"
    unfolding initial_measurement_def
    by (elim thn_InrE bnd_InrE emit_InrE) (auto simp: ret_def)
  have "quiet (print_dh h (Some ''BEFORE CLEAN-UP:''))"
    by (rule quiet_print_dh) (simp add: opt_text_def)
  then have "summary ld = []" using dh by (rule quiet_summary)
  then show ?thesis
    unfolding l
    using get_available_space_summary_all[OF ga] get_available_space_summary_root[OF gr]
    by simp
qed

lemma final_statistics_summary:
  assumes "final_statistics h a0 r0 w = (Inr (), w', l)"
  shows "\<exists>a1 r1 f1 f2. summary l = closing_items a0 r0 a1 r1 f1 f2"
proof -
  from assms obtain a1 r1 wa wb la wc lb wd lc f we wf ld wg le wh lf wi lg f'
    where ga: "get_available_space h None wa = (Inr a1, wb, la)"
      and gr: "get_available_space h (Some ''/'') wb = (Inr r1, wc, lb)"
      and f1: "format_byte_count h (a1 - a0) wc = (Inr f, wd, lc)"
      and dh: "print_dh h (Some ''AFTER CLEAN-UP:'') we = (Inr (), wf, ld)"
      and p1: "print_saved_space h (r1 - r0) None wf = (Inr (), wg, le)"
      and p2: "print_saved_space h (a1 - a0) None wg = (Inr (), wh, lf)"
      and f2: "format_byte_count h (a1 - a0) wh = (Inr f', wi, lg)"
      and l: "l = [Span ''cleanup.stats'' ''Calculate final statistics''] @ la @ lb
                  @ [SetData ''cleanup.stats'' ''initial_kb'' (TInt a0),
                     SetData ''cleanup.stats'' ''final_kb'' (TInt a1),
                     SetData ''cleanup.stats'' ''total_saved_kb'' (TInt (a1 - a0))]
                  @ lc @ [SetData ''cleanup.stats'' ''total_saved_formatted'' (TStr f), Print []]
                  @ ld @ [Print [], Print [], Print ''/dev/root:''] @ le @ [Print ''overall:'']
                  @ lf @ [TxSetTag ''cleanup.success'' ''true'',
                          SetData ''cleanup'' ''total_kb_freed'' (TInt (a1 - a0))]
                  @ lg @ [SetData ''cleanup'' ''total_freed_formatted'' (TStr f')]"
    unfolding final_statistics_def Let_def
    by (elim thn_InrE bnd_InrE emit_InrE) (auto simp: emits_def)
  have "quiet (print_dh h (Some ''AFTER CLEAN-UP:''))"
    by (rule quiet_print_dh) (simp add: opt_text_def)
  then have d: "summary ld = []" using dh by (rule quiet_summary)
  obtain g1 where g1: "summary le = [Reported (r1 - r0), Banner (''=> Saved '' @ g1)]"
    using print_saved_space_untitled[OF p1] by blast
  obtain g2 where g2: "summary lf = [Reported (a1 - a0), Banner (''=> Saved '' @ g2)]"
    using print_saved_space_untitled[OF p2] by blast
  have "summary l = closing_items a0 r0 a1 r1 g1 g2"
    unfolding l
    using get_available_space_summary_all[OF ga] get_available_space_summary_root[OF gr]
      quiet_summary[OF quiet_format_byte_count f1] quiet_summary[OF quiet_format_byte_count f2]
      d g1 g2
    by (simp add: closing_items_def)
  then show ?thesis by blast
qed

lemma main_as_loop:
  "main h e dsn =
     thn (emit (Transaction ''cleanup'' ''Disk Space Cleanup''))
       (bnd (initial_measurement h)
          (\<lambda>(available_initial, available_root_initial).
             thn (for_each (\<lambda>s. when_true (stage_enabled e s) (stage_program h e dsn s)) stage_order)
                 (final_statistics h available_initial available_root_initial)))"
  by (simp add: main_def stage_order_def stage_enabled_def thn_assoc thn_ret)

lemma stages_summary:
  assumes "for_each (\<lambda>s. when_true (en s) (stage_program h e dsn s)) ss w = (Inr (), w', l)"
  shows "\<exists>xs. map fst xs = filter en ss \<and> summary l = stages_items xs"
  using assms
proof (induction ss arbitrary: w l)
  case Nil
  then show ?case by (simp add: ret_def stages_items_def)
next
  case (Cons s ss)
  from Cons.prems obtain w1 l1 l2
    where first: "when_true (en s) (stage_program h e dsn s) w = (Inr (), w1, l1)"
      and rest: "for_each (\<lambda>s. when_true (en s) (stage_program h e dsn s)) ss w1 = (Inr (), w', l2)"
      and l: "l = l1 @ l2"
    by (auto elim!: thn_InrE)
  obtain xs where xs: "map fst xs = filter en ss" "summary l2 = stages_items xs"
    using Cons.IH[OF rest] by blast
  show ?case
  proof (cases "en s")
    case True
    then have sp: "stage_program h e dsn s w = (Inr (), w1, l1)"
      using first by (simp add: when_true_def)
    obtain b a f where "summary l1 = stage_items (stage_op s) (stage_title s) b a f"
      using stage_program_summary[OF sp] by blast
    then have "map fst ((s, b, a, f) # xs) = filter en (s # ss)
               \<and> summary l = stages_items ((s, b, a, f) # xs)"
      using xs True l by (simp add: stages_items_def)
    then show ?thesis by blast
  next
    case False
    then have "l1 = []" using first by (simp add: when_true_def ret_def)
    then show ?thesis using xs False l by auto
  qed
qed

lemma main_summary:
  assumes "main h e dsn w = (Inr (), w', l)"
  shows "\<exists>a0 r0 a1 r1 f1 f2 xs.
           map fst xs = filter (stage_enabled e) stage_order
           \<and> summary l = [probe_all, Measured a0, probe_root, Measured r0]
                          @ stages_items xs @ closing_items a0 r0 a1 r1 f1 f2"
proof -
  from assms obtain a0 r0 w1 l1 w2 l2 w3 l3
    where i: "initial_measurement h w1 = (Inr (a0, r0), w2, l1)"
      and s: "for_each (\<lambda>s. when_true (stage_enabled e s) (stage_program h e dsn s)) stage_order w2
                = (Inr (), w3, l2)"
      and f: "final_statistics h a0 r0 w3 = (Inr (), w', l3)"
      and l: "l = [Transaction ''cleanup'' ''Disk Space Cleanup''] @ l1 @ l2 @ l3"
    unfolding main_as_loop
    by (elim thn_InrE bnd_InrE emit_InrE) (auto elim!: thn_InrE)
  obtain xs where xs: "map fst xs = filter (stage_enabled e) stage_order" "summary l2 = stages_items xs"
    using stages_summary[OF s] by blast
  obtain a1 r1 f1 f2 where c: "summary l3 = closing_items a0 r0 a1 r1 f1 f2"
    using final_statistics_summary[OF f] by blast
  have "summary l = [probe_all, Measured a0, probe_root, Measured r0]
                     @ stages_items xs @ closing_items a0 r0 a1 r1 f1 f2"
    unfolding l using initial_measurement_summary[OF i] xs(2) c by simp
  with xs(1) show ?thesis by blast
qed

lemma digest_result: "digest r = (res, w, its) \<Longrightarrow> result_of r = res \<and> summary (log_of r) = its"
  by (cases r) (auto simp: digest_def result_of_def log_of_def)

lemma outcome_fields: "result_of r = Inr () \<Longrightarrow> \<exists>w l. r = (Inr (), w, l)"
  by (cases r) (auto simp: result_of_def)

lemma swap_digest:
  "digest (swap_stage demo_host [] 500)
     = (Inr (), 460, stage_items ''cleanup.swap'' ''Swap storage'' 500 460 ''-40KiB'')"
  by code_simp

lemma main_digest:
  "digest (main demo_host only_android [] 500)
     = (Inr (), 600,
        [probe_all, Measured 500, probe_root, Measured 500]
        @ stage_items ''cleanup.android'' ''Android library'' 500 600 ''98KiB''
        @ closing_items 500 500 600 600 ''98KiB'' ''98KiB'')"
  by code_simp

text \<open>
  Claim C5.  A stage that runs to its end measured \<open>b\<close> before and \<open>a\<close> after its
  operations, set \<open>saved_kb\<close> on its span to \<open>a - b\<close>, and handed the same \<open>a - b\<close> to
  \<open>print_saved_space\<close> and to \<open>format_byte_count\<close>, whose result \<open>f\<close> is on the printed
  line.  The difference is the signed one: on the small machine the swap stage measures
  500 and then 460 and reports \<open>- 40\<close>.
\<close>

theorem stage_reports_signed_difference:
  assumes "result_of (stage_program h e dsn s w) = Inr ()"
  shows "\<exists>b a f. summary (log_of (stage_program h e dsn s w)) =
             [probe_all, Measured b, probe_all, Measured a, StageSaved (stage_op s) (a - b),
              Title (stage_title s), Reported (a - b),
              Banner (''=> '' @ stage_title s @ '': Saved '' @ f)]
           \<and> (\<exists>w1 w2 lf. format_byte_count h (a - b) w1 = (Inr f, w2, lf))"
proof -
  obtain w' l where r: "stage_program h e dsn s w = (Inr (), w', l)"
    using outcome_fields[OF assms] by blast
  obtain b a f w1 w2 lf where "format_byte_count h (a - b) w1 = (Inr f, w2, lf)"
      and "summary l = stage_items (stage_op s) (stage_title s) b a f"
    using stage_program_summary[OF r] by blast
  then show ?thesis unfolding r log_of_def stage_items_def by auto
qed

theorem stage_reports_signed_difference_witness:
  "result_of (stage_program demo_host Map.empty [] SwapStorage 500) = Inr ()
   \<and> (\<exists>b a f. summary (log_of (stage_program demo_host Map.empty [] SwapStorage 500)) =
             [probe_all, Measured b, probe_all, Measured a, StageSaved (stage_op SwapStorage) (a - b),
              Title (stage_title SwapStorage), Reported (a - b),
              Banner (''=> '' @ stage_title SwapStorage @ '': Saved '' @ f)]
           \<and> (\<exists>w1 w2 lf. format_byte_count demo_host (a - b) w1 = (Inr f, w2, lf)))
   \<and> summary (log_of (stage_program demo_host Map.empty [] SwapStorage 500)) =
       [probe_all, Measured 500, probe_all, Measured 460, StageSaved ''cleanup.swap'' (- 40),
        Title ''Swap storage'', Reported (- 40), Banner ''=> Swap storage: Saved -40KiB'']"
proof -
  have d: "result_of (stage_program demo_host Map.empty [] SwapStorage 500) = Inr ()
           \<and> summary (log_of (stage_program demo_host Map.empty [] SwapStorage 500))
               = stage_items ''cleanup.swap'' ''Swap storage'' 500 460 ''-40KiB''"
    using digest_result[OF swap_digest] by simp
  then have r: "result_of (stage_program demo_host Map.empty [] SwapStorage 500) = Inr ()" by simp
  note ex = stage_reports_signed_difference[OF r]
  have c: "summary (log_of (stage_program demo_host Map.empty [] SwapStorage 500)) =
       [probe_all, Measured 500, probe_all, Measured 460, StageSaved ''cleanup.swap'' (- 40),
        Title ''Swap storage'', Reported (- 40), Banner ''=> Swap storage: Saved -40KiB'']"
    using d by (simp add: stage_items_def)
  show ?thesis by (intro conjI) (rule r, rule ex, rule c)
qed




lemma probes_differ: "probe_root \<noteq> probe_all"
  by (simp add: probe_all_def probe_root_def)

lemma stage_items_members:
  "x \<in> set (stage_items op t b a f) \<Longrightarrow> x \<noteq> probe_root \<and> (\<forall>n. x \<noteq> Total n)"
  by (auto simp: stage_items_def probe_all_def probe_root_def)

lemma stages_items_members:
  "x \<in> set (stages_items xs) \<Longrightarrow> x \<noteq> probe_root \<and> (\<forall>n. x \<noteq> Total n)"
  unfolding stages_items_def using stage_items_members by fastforce

text \<open>
  Claim C2.  In a run that reaches its end the summary opens with the all-mounts and the
  root measurement \<open>a0\<close> and \<open>r0\<close> and closes with the two final ones \<open>a1\<close> and \<open>r1\<close>; the
  total is \<open>a1 - a0\<close> and the two closing reports are \<open>r1 - r0\<close> and \<open>a1 - a0\<close>.  What
  the stages measured and reported stands in between and enters neither: the root is
  measured nowhere else and no other total is recorded.
\<close>

theorem totals_from_global_measurements:
  assumes "result_of (main h e dsn w) = Inr ()"
  shows "\<exists>a0 r0 a1 r1 f1 f2 xs.
           summary (log_of (main h e dsn w)) =
             [probe_all, Measured a0, probe_root, Measured r0]
             @ stages_items xs
             @ [probe_all, Measured a1, probe_root, Measured r1, Total (a1 - a0),
                Reported (r1 - r0), Banner (''=> Saved '' @ f1),
                Reported (a1 - a0), Banner (''=> Saved '' @ f2)]
           \<and> probe_root \<notin> set (stages_items xs)
           \<and> (\<forall>n. Total n \<notin> set (stages_items xs))"
proof -
  obtain w' l where r: "main h e dsn w = (Inr (), w', l)"
    using outcome_fields[OF assms] by blast
  obtain a0 r0 a1 r1 f1 f2 xs where
    "summary l = [probe_all, Measured a0, probe_root, Measured r0]
                 @ stages_items xs @ closing_items a0 r0 a1 r1 f1 f2"
    using main_summary[OF r] by blast
  moreover have "probe_root \<notin> set (stages_items xs)" "\<forall>n. Total n \<notin> set (stages_items xs)"
    using stages_items_members by blast+
  ultimately show ?thesis unfolding r log_of_def closing_items_def by auto
qed

theorem totals_from_global_measurements_witness:
  "result_of (main demo_host only_android [] 500) = Inr ()
   \<and> (\<exists>a0 r0 a1 r1 f1 f2 xs.
           summary (log_of (main demo_host only_android [] 500)) =
             [probe_all, Measured a0, probe_root, Measured r0]
             @ stages_items xs
             @ [probe_all, Measured a1, probe_root, Measured r1, Total (a1 - a0),
                Reported (r1 - r0), Banner (''=> Saved '' @ f1),
                Reported (a1 - a0), Banner (''=> Saved '' @ f2)]
           \<and> probe_root \<notin> set (stages_items xs)
           \<and> (\<forall>n. Total n \<notin> set (stages_items xs)))
   \<and> summary (log_of (main demo_host only_android [] 500)) =
       [probe_all, Measured 500, probe_root, Measured 500]
       @ stage_items ''cleanup.android'' ''Android library'' 500 600 ''98KiB''
       @ [probe_all, Measured 600, probe_root, Measured 600, Total 100,
          Reported 100, Banner ''=> Saved 98KiB'', Reported 100, Banner ''=> Saved 98KiB'']"
proof -
  have d: "result_of (main demo_host only_android [] 500) = Inr ()
           \<and> summary (log_of (main demo_host only_android [] 500)) =
               [probe_all, Measured 500, probe_root, Measured 500]
               @ stage_items ''cleanup.android'' ''Android library'' 500 600 ''98KiB''
               @ closing_items 500 500 600 600 ''98KiB'' ''98KiB''"
    using digest_result[OF main_digest] by simp
  then have r: "result_of (main demo_host only_android [] 500) = Inr ()" by simp
  note ex = totals_from_global_measurements[OF r]
  have c: "summary (log_of (main demo_host only_android [] 500)) =
       [probe_all, Measured 500, probe_root, Measured 500]
       @ stage_items ''cleanup.android'' ''Android library'' 500 600 ''98KiB''
       @ [probe_all, Measured 600, probe_root, Measured 600, Total 100,
          Reported 100, Banner ''=> Saved 98KiB'', Reported 100, Banner ''=> Saved 98KiB'']"
    using d by (simp add: closing_items_def)
  show ?thesis by (intro conjI) (rule r, rule ex, rule c)
qed




section \<open>Telemetry does not interfere\<close>

lemma sim_refl: "sim m m"
  by (simp add: sim_def same_observable_def)

lemma sim_bnd:
  assumes "sim m1 m2" and "\<And>x. sim (f1 x) (f2 x)"
  shows "sim (bnd m1 f1) (bnd m2 f2)"
  unfolding sim_def
proof
  fix w
  obtain r1 w1 l1 where a: "m1 w = (r1, w1, l1)" by (cases "m1 w") auto
  obtain r2 w2 l2 where b: "m2 w = (r2, w2, l2)" by (cases "m2 w") auto
  have eq: "r1 = r2" "w1 = w2" "filter visible l1 = filter visible l2"
    using assms(1) a b
    by (auto simp: sim_def same_observable_def result_of_def world_of_def log_of_def
        dest!: spec[of _ w])
  show "same_observable (bnd m1 f1 w) (bnd m2 f2 w)"
  proof (cases r1)
    case (Inl err)
    then show ?thesis using a b eq
      by (simp add: bnd_def same_observable_def result_of_def world_of_def log_of_def)
  next
    case (Inr x)
    have "same_observable (f1 x w1) (f2 x w1)" using assms(2)[of x] by (simp add: sim_def)
    then show ?thesis using a b eq Inr
      by (auto simp: bnd_def same_observable_def result_of_def world_of_def log_of_def
          split: prod.splits)
  qed
qed

lemma sim_thn: "sim m1 m2 \<Longrightarrow> sim k1 k2 \<Longrightarrow> sim (thn m1 k1) (thn m2 k2)"
  by (simp add: thn_def sim_bnd)

lemma sim_when: "sim m1 m2 \<Longrightarrow> sim (when_true b m1) (when_true b m2)"
  by (simp add: when_true_def sim_refl)

lemma sim_for_each: "(\<And>x. sim (f x) (g x)) \<Longrightarrow> sim (for_each f xs) (for_each g xs)"
  by (induction xs) (simp_all add: sim_refl sim_thn)

lemma sim_emits: "filter visible es1 = filter visible es2 \<Longrightarrow> sim (emits es1) (emits es2)"
  by (simp add: sim_def same_observable_def emits_def result_of_def world_of_def log_of_def)

lemma when_emits: "when_true b (emits es) = emits (if b then es else [])"
  by (rule ext) (simp add: when_true_def ret_def emits_def)

lemma get_input_same:
  assumes "same_but_dsn e1 e2"
  shows "get_input e1 name dflt = get_input e2 name dflt"
proof -
  have "e1 (''INPUT_'' @ v) = e2 (''INPUT_'' @ v)" for v
    using assms unfolding same_but_dsn_def by (auto dest!: spec[of _ "''INPUT_'' @ v"])
  then show ?thesis by (simp add: get_input_def getenv_def Let_def)
qed

lemma getenv_same:
  assumes "same_but_dsn e1 e2" and "name \<noteq> ''SENTRY_DSN''"
  shows "getenv e1 name dflt = getenv e2 name dflt"
  using assms unfolding same_but_dsn_def getenv_def by (auto dest!: spec[of _ name])

lemma sim_stage_block:
  "sim ops1 ops2 \<Longrightarrow> sim (stage_block h op d t ops1) (stage_block h op d t ops2)"
  unfolding stage_block_def
  by (intro sim_bnd sim_thn sim_refl) assumption

lemma sim_if:
  "(b \<Longrightarrow> sim m1 m2) \<Longrightarrow> (\<not> b \<Longrightarrow> sim k1 k2)
   \<Longrightarrow> sim (if b then m1 else k1) (if b then m2 else k2)"
  by simp

lemma sim_hidden:
  "sim (when_true b1 (emits [PushScope, SetExtra k1 v1, SetExtra k2 v2, SetExtra k3 v3, Capture x]))
       (when_true b2 (emits [PushScope, SetExtra k1 v1, SetExtra k2 v2, SetExtra k3 v3, Capture x]))"
  unfolding when_emits by (rule sim_emits) simp

lemma sim_run_command: "sim (run_command h d1 cmd msg) (run_command h d2 cmd msg)"
  unfolding run_command_def
  by (intro sim_thn sim_bnd sim_if sim_hidden sim_refl)

lemma sim_package_step: "sim (package_step h d1 n x) (package_step h d2 n x)"
  unfolding package_step_def split_def
  by (intro sim_bnd sim_thn sim_run_command sim_refl)

lemma sim_run_batch: "sim (run_batch h d1 cmds) (run_batch h d2 cmds)"
  unfolding run_batch_def by (rule sim_for_each) (rule sim_package_step)

lemma sim_tool_cache:
  assumes "same_but_dsn e1 e2"
  shows "sim (tool_cache_operations h e1 d1) (tool_cache_operations h e2 d2)"
proof -
  have "getenv e1 ''AGENT_TOOLSDIRECTORY'' [] = getenv e2 ''AGENT_TOOLSDIRECTORY'' []"
    using assms by (rule getenv_same) simp
  then show ?thesis
    unfolding tool_cache_operations_def Let_def
    by (simp add: sim_when sim_thn sim_refl sim_run_command)
qed

lemma sim_case_prod:
  "(\<And>a b. sim (f a b) (g a b)) \<Longrightarrow> sim (case_prod f x) (case_prod g x)"
  by (cases x) simp

lemma sim_main:
  assumes "same_but_dsn e1 e2"
  shows "sim (main h e1 d1) (main h e2 d2)"
  unfolding main_def android_stage_def dotnet_stage_def haskell_stage_def packages_stage_def
    docker_stage_def toolcache_stage_def swap_stage_def
  apply (simp only: get_input_same[OF assms])
  apply (intro sim_thn sim_bnd sim_case_prod sim_when sim_stage_block sim_run_command
      sim_run_batch sim_tool_cache[OF assms] sim_refl)
  done

lemma sim_sentry_setup: "sim (sentry_setup e1 d1) (sentry_setup e2 d2)"
  unfolding sentry_setup_def when_emits by (rule sim_emits) simp

lemma sim_guard:
  assumes "sim p1 p2"
  shows "sim (\<lambda>w. case p1 w of
                    (Inl err, w1, l1) \<Rightarrow> (Inl err, w1, l1 @ (if b1 then [Capture err] else []))
                  | (Inr u, w1, l1) \<Rightarrow> (Inr u, w1, l1))
             (\<lambda>w. case p2 w of
                    (Inl err, w1, l1) \<Rightarrow> (Inl err, w1, l1 @ (if b2 then [Capture err] else []))
                  | (Inr u, w1, l1) \<Rightarrow> (Inr u, w1, l1))"
  unfolding sim_def
proof
  fix w
  have "same_observable (p1 w) (p2 w)" using assms by (simp add: sim_def)
  then show "same_observable
          (case p1 w of
             (Inl err, w1, l1) \<Rightarrow> (Inl err, w1, l1 @ (if b1 then [Capture err] else []))
           | (Inr u, w1, l1) \<Rightarrow> (Inr u, w1, l1))
          (case p2 w of
             (Inl err, w1, l1) \<Rightarrow> (Inl err, w1, l1 @ (if b2 then [Capture err] else []))
           | (Inr u, w1, l1) \<Rightarrow> (Inr u, w1, l1))"
    by (cases "p1 w"; cases "p2 w")
       (auto simp: same_observable_def result_of_def world_of_def log_of_def split: sum.splits)
qed

lemma sim_script:
  assumes "same_but_dsn e1 e2"
  shows "sim (script h e1) (script h e2)"
  unfolding script_def Let_def
  by (intro sim_thn sim_sentry_setup sim_guard sim_main[OF assms] sim_refl)

lemma visible_on_console: "on_console e \<Longrightarrow> visible e"
  by (cases e) simp_all

lemma transcript_visible: "transcript (filter visible l) = transcript l"
  unfolding transcript_def filter_filter
  by (rule filter_cong) (auto dest: visible_on_console)

lemma item_of_hidden: "\<not> visible e \<Longrightarrow> item_of e = []"
  by (cases e) simp_all

lemma summary_visible: "summary (filter visible l) = summary l"
  by (induction l) (auto simp: summary_def item_of_hidden)

text \<open>
  Claim C9.  Two runs of the script on the same machine, from the same state, under
  environments that differ at most in \<open>SENTRY_DSN\<close>, end the same way, leave the machine
  in the same state and make the same calls but for those the script makes only when a
  DSN is set (\<open>init\<close>, the global tags, \<open>push_scope\<close>, \<open>set_extra\<close>, \<open>capture_exception\<close>):
  the console transcript, the measurements and the saved amounts are the same.  The same
  holds for one call of \<open>run_command\<close> under two values of the DSN, so it returns the same
  boolean.  The SDK's calls are taken to return normally and exec does not read the
  environment.
\<close>

theorem telemetry_noninterference:
  assumes "same_but_dsn e1 e2"
  shows "same_observable (script h e1 w) (script h e2 w)
         \<and> transcript (log_of (script h e1 w)) = transcript (log_of (script h e2 w))
         \<and> summary (log_of (script h e1 w)) = summary (log_of (script h e2 w))
         \<and> same_observable (run_command h d1 cmd msg w) (run_command h d2 cmd msg w)
         \<and> result_of (run_command h d1 cmd msg w) = result_of (run_command h d2 cmd msg w)"
proof -
  have s: "same_observable (script h e1 w) (script h e2 w)"
    using sim_script[OF assms, of h] by (simp add: sim_def)
  then have v: "filter visible (log_of (script h e1 w)) = filter visible (log_of (script h e2 w))"
    by (simp add: same_observable_def)
  have t: "transcript (log_of (script h e1 w)) = transcript (log_of (script h e2 w))"
    using arg_cong[OF v, of transcript] by (simp only: transcript_visible)
  have u: "summary (log_of (script h e1 w)) = summary (log_of (script h e2 w))"
    using arg_cong[OF v, of summary] by (simp only: summary_visible)
  have r: "same_observable (run_command h d1 cmd msg w) (run_command h d2 cmd msg w)"
    using sim_run_command[of h d1 cmd msg d2] by (simp add: sim_def)
  then have "result_of (run_command h d1 cmd msg w) = result_of (run_command h d2 cmd msg w)"
    by (simp add: same_observable_def)
  with s t u r show ?thesis by simp
qed

lemma with_dsn_same: "same_but_dsn with_dsn Map.empty"
  by (simp add: same_but_dsn_def with_dsn_def)

lemma demo_logs_differ:
  "log_of (run_command demo_host ''https://key@sentry.example/1''
             [''sudo'', ''docker'', ''image'', ''prune'', ''--all'', ''--force''] None 500)
   \<noteq> log_of (run_command demo_host []
             [''sudo'', ''docker'', ''image'', ''prune'', ''--all'', ''--force''] None 500)"
  by code_simp

theorem telemetry_noninterference_witness:
  "same_but_dsn with_dsn Map.empty
   \<and> same_observable (script demo_host with_dsn 500) (script demo_host Map.empty 500)
   \<and> transcript (log_of (script demo_host with_dsn 500))
       = transcript (log_of (script demo_host Map.empty 500))
   \<and> result_of (run_command demo_host ''https://key@sentry.example/1''
                  [''sudo'', ''docker'', ''image'', ''prune'', ''--all'', ''--force''] None 500)
       = result_of (run_command demo_host []
                  [''sudo'', ''docker'', ''image'', ''prune'', ''--all'', ''--force''] None 500)
   \<and> log_of (run_command demo_host ''https://key@sentry.example/1''
               [''sudo'', ''docker'', ''image'', ''prune'', ''--all'', ''--force''] None 500)
       \<noteq> log_of (run_command demo_host []
               [''sudo'', ''docker'', ''image'', ''prune'', ''--all'', ''--force''] None 500)"
  using telemetry_noninterference[OF with_dsn_same, of demo_host 500
      "''https://key@sentry.example/1''"
      "[''sudo'', ''docker'', ''image'', ''prune'', ''--all'', ''--force'']" None "[]"]
    with_dsn_same demo_logs_differ
  by blast

end
